theory Spec2Isabelle
  imports Main
begin

section \<open>Values and text\<close>

text \<open>
  Request bodies and job payloads are JSON. A field that is read for its truthiness, or
  compared with \<open>===\<close>, is kept as a JavaScript value: absent (\<open>undefined\<close>), \<open>null\<close>,
  a boolean, an integer number, a string, or some object or array.
\<close>

datatype jsval = JUndefined | JNull | JBool bool | JNum int | JStr string | JObj

fun truthy :: "jsval \<Rightarrow> bool" where
  "truthy JUndefined = False"
| "truthy JNull = False"
| "truthy (JBool b) = b"
| "truthy (JNum n) = (n \<noteq> 0)"
| "truthy (JStr s) = (s \<noteq> [])"
| "truthy JObj = True"

text \<open>\<open>a || b\<close> on values: the left operand when it is truthy, else the right one.\<close>

definition js_or :: "jsval \<Rightarrow> jsval \<Rightarrow> jsval" where
  "js_or a b = (if truthy a then a else b)"

text \<open>Decimal text of a number inside a template literal, \<open>`${n}`\<close>.\<close>

definition digit :: "nat \<Rightarrow> char" where
  "digit d = ''0123456789'' ! d"

fun show_nat :: "nat \<Rightarrow> string" where
  "show_nat n = (if n < 10 then [digit n] else show_nat (n div 10) @ [digit (n mod 10)])"

declare show_nat.simps [simp del]

definition show_int :: "int \<Rightarrow> string" where
  "show_int i = (if i < 0 then CHR ''-'' # show_nat (nat (- i)) else show_nat (nat i))"

text \<open>\<open>xs.join(sep)\<close>.\<close>

fun join :: "string \<Rightarrow> string list \<Rightarrow> string" where
  "join sep [] = []"
| "join sep [x] = x"
| "join sep (x # y # ys) = x @ sep @ join sep (y # ys)"

text \<open>\<open>path.join(dir, filename)\<close> and \<open>path.basename(p)\<close> on POSIX paths.\<close>

definition path_join :: "string \<Rightarrow> string \<Rightarrow> string" where
  "path_join d f = d @ ''/'' @ f"

definition basename :: "string \<Rightarrow> string" where
  "basename p = rev (takeWhile (\<lambda>c. c \<noteq> CHR ''/'') (rev p))"


section \<open>Acquisition: picking a source quality (twitchClipDownloaderService.js)\<close>

record videoQuality =
  sourceURL :: string
  quality :: string

text \<open>
  \<open>qualities.find(q => q.quality === '1080') || qualities.find(q => q.quality === '720')
  || qualities[0]\<close>. An entry is an object, hence truthy, so \<open>||\<close> falls through exactly
  when \<open>find\<close> found nothing; \<open>qualities[0]\<close> of an empty array is \<open>undefined\<close> (\<open>None\<close>).
\<close>

definition bestQuality :: "videoQuality list \<Rightarrow> videoQuality option" where
  "bestQuality qualities =
     (case find (\<lambda>q. quality q = ''1080'') qualities of
        Some q \<Rightarrow> Some q
      | None \<Rightarrow>
          (case find (\<lambda>q. quality q = ''720'') qualities of
             Some q \<Rightarrow> Some q
           | None \<Rightarrow> (case qualities of [] \<Rightarrow> None | q # _ \<Rightarrow> Some q)))"

text \<open>
  The GraphQL step of \<open>getClipVideoUrl\<close>. The response's \<open>videoQualities\<close> is \<open>None\<close>
  when the request failed or the field is missing; the step answers a URL only when the
  list has an entry (\<open>videoQualities?.length > 0\<close>), and otherwise the caller goes on to
  the next strategy.
\<close>

definition gqlVideoUrl :: "videoQuality list option \<Rightarrow> string option" where
  "gqlVideoUrl videoQualities =
     (case videoQualities of
        None \<Rightarrow> None
      | Some qualities \<Rightarrow>
          if length qualities > 0
          then map_option sourceURL (bestQuality qualities)
          else None)"


section \<open>The video service: stages of a compilation (videoService.js)\<close>

text \<open>
  The service downloads with yt-dlp and transcodes with ffmpeg. Both are external: the
  model records each invocation with its arguments, and takes from the environment
  whether yt-dlp is installed, whether an invocation ends well, and whether one that
  fails leaves its output file behind (\<open>leftBehind\<close>). The environment also
  answers the regular expression of the compilation worker (\<open>previewSlug\<close>) and gives
  the video files the editor worker finds in the outro directory (\<open>videoOutros\<close>,
  \<open>None\<close> when the directory cannot be read).
\<close>

text \<open>A camera region: the object \<open>{x, y, width, height}\<close> the editor sends.\<close>

record camRegion =
  cam_x :: int
  cam_y :: int
  cam_width :: int
  cam_height :: int

text \<open>
  The invocations: a download (clip id, target file); the merge (inputs, filter, output);
  the single-layer conversion (input, camera position, output); the reframe with an
  extracted camera (input, region, camera position, output); the outro (video, outro,
  output); the thumbnail (video, timestamp, output); the removal of a file.
\<close>

datatype call =
    YtdlpDownload string string
  | FFmpegMerge "string list" string string
  | FFmpegVertical string jsval string
  | FFmpegExtractedCamera string camRegion jsval string
  | FFmpegOutro string jsval string
  | FFmpegThumbnail string string string
  | Unlink string

record env =
  ytdlpInstalled :: bool
  succeeds :: "call \<Rightarrow> bool"
  leftBehind :: "call \<Rightarrow> bool"
  previewSlug :: "string \<Rightarrow> string option"
  videoOutros :: "string list option"

datatype error = Error string | TypeError string | ToolFailure call

text \<open>The files on disk and the invocations made so far, oldest first.\<close>

record state =
  files :: "string set"
  calls :: "call list"

definition start :: "string set \<Rightarrow> state" where
  "start F = \<lparr>files = F, calls = []\<rparr>"

record VideoService =
  tempDir :: string
  outputDir :: string

record clip =
  clip_id :: string
  url :: jsval
  thumbnail_url :: jsval

record options =
  convertToVertical_opt :: jsval
  cameraPosition_opt :: jsval
  addOutro_opt :: jsval
  outroPath_opt :: jsval

text \<open>
  One run of an external tool that writes \<open>outputPath\<close>: the promise resolves with the
  path when the tool ends well and rejects with the tool's error otherwise. A run that
  fails after the tool has opened its output leaves that file behind, a run that fails
  before does not; the environment says which.
\<close>

definition invoke :: "env \<Rightarrow> call \<Rightarrow> string \<Rightarrow> state \<Rightarrow> (error + string) \<times> state" where
  "invoke e c outputPath st =
     (let st' = st\<lparr>calls := calls st @ [c]\<rparr>
      in if succeeds e c
         then (Inr outputPath, st'\<lparr>files := insert outputPath (files st')\<rparr>)
         else (Inl (ToolFailure c),
               if leftBehind e c then st'\<lparr>files := insert outputPath (files st')\<rparr> else st'))"

text \<open>
  \<open>mergeClips\<close>: every clip path is an input, in order; the filter names the video and
  audio pad of each input in that order and concatenates them.
\<close>

definition mergeFilterComplex :: "string list \<Rightarrow> string" where
  "mergeFilterComplex clipPaths =
     concat (map (\<lambda>index. ''['' @ show_nat index @ '':v]['' @ show_nat index @ '':a]'')
                 [0 ..< length clipPaths])
     @ ''concat=n='' @ show_nat (length clipPaths) @ '':v=1:a=1[outv][outa]''"

definition mergeClips ::
  "env \<Rightarrow> VideoService \<Rightarrow> string list \<Rightarrow> string \<Rightarrow> state \<Rightarrow> (error + string) \<times> state" where
  "mergeClips e svc clipPaths outputFilename st =
     (let outputPath = path_join (outputDir svc) outputFilename
      in invoke e (FFmpegMerge clipPaths (mergeFilterComplex clipPaths) outputPath) outputPath st)"

text \<open>\<open>const { cameraPosition = 'bottom' } = options\<close>.\<close>

definition positionOrDefault :: "jsval \<Rightarrow> jsval" where
  "positionOrDefault cameraPosition =
     (if cameraPosition = JUndefined then JStr ''bottom'' else cameraPosition)"

text \<open>\<open>convertToVertical\<close>, the single-layer conversion.\<close>

definition convertToVertical ::
  "env \<Rightarrow> VideoService \<Rightarrow> string \<Rightarrow> string \<Rightarrow> jsval \<Rightarrow> state \<Rightarrow> (error + string) \<times> state" where
  "convertToVertical e svc inputPath outputFilename cameraPosition st =
     (let outputPath = path_join (outputDir svc) outputFilename;
          position = positionOrDefault cameraPosition
      in invoke e (FFmpegVertical inputPath position outputPath) outputPath st)"

text \<open>
  \<open>convertToVerticalWithExtractedCamera\<close> as a stage; its filter graph is
  \<open>extractedCameraGraph\<close> below.
\<close>

definition convertToVerticalWithExtractedCamera ::
  "env \<Rightarrow> VideoService \<Rightarrow> string \<Rightarrow> camRegion \<Rightarrow> string \<Rightarrow> jsval \<Rightarrow> state
     \<Rightarrow> (error + string) \<times> state" where
  "convertToVerticalWithExtractedCamera e svc inputPath region outputFilename cameraPosition st =
     (let outputPath = path_join (outputDir svc) outputFilename;
          position = positionOrDefault cameraPosition
      in invoke e (FFmpegExtractedCamera inputPath region position outputPath) outputPath st)"

definition addOutro ::
  "env \<Rightarrow> VideoService \<Rightarrow> string \<Rightarrow> jsval \<Rightarrow> string \<Rightarrow> state \<Rightarrow> (error + string) \<times> state" where
  "addOutro e svc videoPath outroPath outputFilename st =
     (let outputPath = path_join (outputDir svc) outputFilename
      in invoke e (FFmpegOutro videoPath outroPath outputPath) outputPath st)"

definition generateThumbnail ::
  "env \<Rightarrow> VideoService \<Rightarrow> string \<Rightarrow> string \<Rightarrow> state \<Rightarrow> (error + string) \<times> state" where
  "generateThumbnail e svc videoPath outputFilename st =
     (let outputPath = path_join (outputDir svc) outputFilename
      in invoke e (FFmpegThumbnail videoPath ''00:00:01'' outputPath) outputPath st)"

text \<open>
  \<open>cleanup\<close>: unlink each path in turn. The only failure of \<open>fs.unlink\<close> in this model,
  a file that is not there, is caught by the loop and changes nothing.
\<close>

fun cleanup :: "string list \<Rightarrow> state \<Rightarrow> state" where
  "cleanup [] st = st"
| "cleanup (filepath # rest) st =
     cleanup rest (st\<lparr>files := files st - {filepath}, calls := calls st @ [Unlink filepath]\<rparr>)"

text \<open>
  The downloads of \<open>createCompilation\<close>: clip number \<open>index\<close> goes to
  \<open><tempDir>/<compilationId>_clip_<index>.mp4\<close>. \<open>Promise.allSettled\<close> waits for all of
  them, so a rejected download stops nothing; the model runs them in index order.
\<close>

datatype 'a settled = Fulfilled 'a | Rejected error

definition clipFilepath :: "VideoService \<Rightarrow> string \<Rightarrow> nat \<Rightarrow> string" where
  "clipFilepath svc cid index = path_join (tempDir svc) (cid @ ''_clip_'' @ show_nat index @ ''.mp4'')"

definition downloadCall :: "VideoService \<Rightarrow> string \<Rightarrow> nat \<times> clip \<Rightarrow> call" where
  "downloadCall svc cid ic = YtdlpDownload (clip_id (snd ic)) (clipFilepath svc cid (fst ic))"

definition downloadResults :: "env \<Rightarrow> VideoService \<Rightarrow> string \<Rightarrow> clip list \<Rightarrow> string settled list" where
  "downloadResults e svc cid clips =
     map (\<lambda>ic. if succeeds e (downloadCall svc cid ic)
                then Fulfilled (clipFilepath svc cid (fst ic))
                else Rejected (ToolFailure (downloadCall svc cid ic)))
         (enumerate 0 clips)"

text \<open>The files that failed downloads leave behind.\<close>

definition leftoverDownloads :: "env \<Rightarrow> VideoService \<Rightarrow> string \<Rightarrow> clip list \<Rightarrow> string list" where
  "leftoverDownloads e svc cid clips =
     map (\<lambda>ic. clipFilepath svc cid (fst ic))
         (filter (\<lambda>ic. \<not> succeeds e (downloadCall svc cid ic)
                       \<and> leftBehind e (downloadCall svc cid ic))
                 (enumerate 0 clips))"

fun fulfilledValues :: "'a settled list \<Rightarrow> 'a list" where
  "fulfilledValues [] = []"
| "fulfilledValues (Fulfilled v # rs) = v # fulfilledValues rs"
| "fulfilledValues (Rejected _ # rs) = fulfilledValues rs"

record compilationResult =
  success :: bool
  compilationId :: string
  videoPath :: string
  thumbnailPath :: string
  filename :: string

text \<open>
  The body of the \<open>try\<close> block of \<open>createCompilation\<close>. Beside the outcome it returns
  \<open>tempFiles\<close> as it stands when the block is left, which is what the \<open>catch\<close> block
  cleans up.
\<close>

definition compilationSteps ::
  "env \<Rightarrow> VideoService \<Rightarrow> string \<Rightarrow> clip list \<Rightarrow> options \<Rightarrow> state
     \<Rightarrow> ((error + compilationResult) \<times> string list) \<times> state" where
  "compilationSteps e svc cid clips opts st =
     (if \<not> ytdlpInstalled e
      then ((Inl (Error ''yt-dlp is not installed. Please install it to download Twitch clips.''), []), st)
      else
        let downloadedPaths = fulfilledValues (downloadResults e svc cid clips);
            st1 = st\<lparr>files := files st \<union> set downloadedPaths
                                       \<union> set (leftoverDownloads e svc cid clips),
                     calls := calls st @ map (downloadCall svc cid) (enumerate 0 clips)\<rparr>
        in if length downloadedPaths = 0
           then ((Inl (Error ''Failed to download any clips''), []), st1)
           else
             let tempFiles = downloadedPaths
             in case mergeClips e svc downloadedPaths (cid @ ''_merged.mp4'') st1 of
                  (Inl err, st2) \<Rightarrow> ((Inl err, tempFiles), st2)
                | (Inr mergedPath, st2) \<Rightarrow>
                    (case (if truthy (convertToVertical_opt opts)
                           then convertToVertical e svc mergedPath (cid @ ''_vertical.mp4'')
                                  (cameraPosition_opt opts) st2
                           else (Inr mergedPath, st2)) of
                       (Inl err, st3) \<Rightarrow> ((Inl err, tempFiles), st3)
                     | (Inr verticalPath, st3) \<Rightarrow>
                         (case (if truthy (outroPath_opt opts)
                                then addOutro e svc verticalPath (outroPath_opt opts)
                                       (cid @ ''_final.mp4'') st3
                                else (Inr verticalPath, st3)) of
                            (Inl err, st4) \<Rightarrow> ((Inl err, tempFiles), st4)
                          | (Inr finalPath, st4) \<Rightarrow>
                              (case generateThumbnail e svc finalPath (cid @ ''_thumb.jpg'') st4 of
                                 (Inl err, st5) \<Rightarrow> ((Inl err, tempFiles), st5)
                               | (Inr thumbPath, st5) \<Rightarrow>
                                   ((Inr \<lparr>success = True, compilationId = cid,
                                          videoPath = finalPath, thumbnailPath = thumbPath,
                                          filename = basename finalPath\<rparr>, tempFiles),
                                    cleanup tempFiles st5)))))"

text \<open>
  \<open>createCompilation\<close>: the \<open>try\<close> block, and on an error the \<open>catch\<close> block, which cleans
  up \<open>tempFiles\<close> and throws the same error again.
\<close>

definition createCompilation ::
  "env \<Rightarrow> VideoService \<Rightarrow> string \<Rightarrow> clip list \<Rightarrow> options \<Rightarrow> state
     \<Rightarrow> (error + compilationResult) \<times> state" where
  "createCompilation e svc cid clips opts st =
     (case compilationSteps e svc cid clips opts st of
        ((Inr result, tempFiles), st') \<Rightarrow> (Inr result, st')
      | ((Inl err, tempFiles), st') \<Rightarrow> (Inl err, cleanup tempFiles st'))"


section \<open>The compilation routes (compilationRoutes.js)\<close>

record requestOptions =
  req_convertToVertical :: jsval
  req_cameraPosition :: jsval
  req_addOutro :: jsval
  req_outroPath :: jsval
  req_title :: jsval

text \<open>
  The body of \<open>POST /create\<close>: \<open>clips\<close> is \<open>None\<close> when the field is missing or is not an
  array; an absent \<open>options\<close> object is the record of \<open>undefined\<close> fields.
\<close>

record requestBody =
  req_clips :: "clip list option"
  req_options :: requestOptions

record metadata =
  title :: jsval
  createdAt :: nat

record jobData =
  job_clips :: "clip list"
  job_options :: options
  job_metadata :: metadata

text \<open>\<open>router.post('/create')\<close>: status 400 (\<open>Inl\<close>) or the payload put on the queue.\<close>

definition create_route :: "nat \<Rightarrow> requestBody \<Rightarrow> string + jobData" where
  "create_route now body =
     (case req_clips body of
        None \<Rightarrow> Inl ''No clips provided''
      | Some clips \<Rightarrow>
          if length clips = 0 then Inl ''No clips provided''
          else
            let ro = req_options body
            in Inr \<lparr>job_clips = clips,
                    job_options =
                      \<lparr>convertToVertical_opt = JBool (req_convertToVertical ro \<noteq> JBool False),
                       cameraPosition_opt = js_or (req_cameraPosition ro) (JStr ''bottom''),
                       addOutro_opt = JBool (req_addOutro ro \<noteq> JBool False),
                       outroPath_opt = req_outroPath ro\<rparr>,
                    job_metadata =
                      \<lparr>title = js_or (req_title ro) (JStr ''Untitled Compilation''),
                       createdAt = now\<rparr>\<rparr>)"

text \<open>
  The loop of the worker over the job's clips. \<open>thumbnail_url.match(...)\<close> is a string
  method: on a truthy value that is no string the body throws, the loop's \<open>catch\<close> logs
  it, and the clip is left out (\<open>None\<close>). The regular expression's captured slug is the
  environment's \<open>previewSlug\<close>. The \<open>fallbackUrl\<close> field the loop also sets is read
  nowhere and is not kept.
\<close>

definition clipWithUrl :: "env \<Rightarrow> clip \<Rightarrow> clip option" where
  "clipWithUrl e c =
     (let videoUrl = js_or (url c) (JStr (''https://clips.twitch.tv/'' @ clip_id c))
      in if truthy (thumbnail_url c)
         then (case thumbnail_url c of
                 JStr t \<Rightarrow>
                   (case previewSlug e t of
                      Some clipSlug \<Rightarrow>
                        Some (c\<lparr>url := JStr (''https://production.assets.clips.twitchcdn.net/''
                                              @ clipSlug @ ''.mp4'')\<rparr>)
                    | None \<Rightarrow> Some (c\<lparr>url := videoUrl\<rparr>))
               | _ \<Rightarrow> None)
         else Some (c\<lparr>url := videoUrl\<rparr>))"

record jobResult = compilationResult +
  result_title :: jsval
  result_metadata :: metadata

text \<open>
  \<open>videoQueue.process\<close>: the worker. Beside the outcome it returns the values passed to
  \<open>job.progress\<close>, in the order of the calls.
\<close>

definition videoQueue_process ::
  "env \<Rightarrow> VideoService \<Rightarrow> string \<Rightarrow> jobData \<Rightarrow> state
     \<Rightarrow> ((error + jobResult) \<times> nat list) \<times> state" where
  "videoQueue_process e svc cid job st =
     (let progress1 = [10];
          clipsWithUrls = List.map_filter (clipWithUrl e) (job_clips job)
      in if length clipsWithUrls = 0
         then ((Inl (Error ''No valid clips found to process''), progress1), st)
         else
           let progress2 = progress1 @ [30]
           in case createCompilation e svc cid clipsWithUrls (job_options job) st of
                (Inl err, st') \<Rightarrow> ((Inl err, progress2), st')
              | (Inr result, st') \<Rightarrow>
                  ((Inr (compilationResult.extend result
                           \<lparr>result_title = js_or (title (job_metadata job))
                                                  (JStr ''Untitled Compilation''),
                            result_metadata = job_metadata job\<rparr>),
                    progress2 @ [100]), st'))"


section \<open>The editor worker (twitchRoutes.js)\<close>

record template =
  aspectRatio :: jsval
  hasIntro :: jsval
  hasOutro :: jsval

text \<open>
  The payload of an editor job; \<open>edit_camRegion\<close> is \<open>None\<close> when the request had no
  camera region (\<open>null\<close>).
\<close>

record editorJob =
  edit_videoPath :: string
  edit_template :: template
  edit_cameraPosition :: jsval
  edit_camRegion :: "camRegion option"

record editorResult =
  edited_success :: bool
  edited_videoPath :: string
  edited_thumbnailPath :: string
  edited_filename :: string

text \<open>
  The three readings of \<open>Date.now()\<close> that name the outputs of a job: for the reframe,
  for the outro and for the thumbnail.
\<close>

record clock =
  at_vertical :: nat
  at_outro :: nat
  at_thumb :: nat

text \<open>
  The reframe block of \<open>editorQueue.process\<close>: with a 9:16 template and a camera region
  the reframe with an extracted camera, with a 9:16 template alone the single-layer
  conversion, and nothing for any other template. It returns the processed path, or the
  error that ends the job, and the progress reported on the way.
\<close>

definition editorReframe ::
  "env \<Rightarrow> VideoService \<Rightarrow> clock \<Rightarrow> editorJob \<Rightarrow> state
     \<Rightarrow> ((error + string) \<times> nat list) \<times> state" where
  "editorReframe e svc clk job st =
     (let verticalFilename = ''vertical_'' @ show_nat (at_vertical clk) @ ''.mp4''
      in if aspectRatio (edit_template job) = JStr ''9:16''
         then (case edit_camRegion job of
                 Some region \<Rightarrow>
                   (case convertToVerticalWithExtractedCamera e svc (edit_videoPath job) region
                           verticalFilename (edit_cameraPosition job) st of
                      (r, st') \<Rightarrow> ((r, [30]), st'))
               | None \<Rightarrow>
                   (case convertToVertical e svc (edit_videoPath job) verticalFilename
                           (edit_cameraPosition job) st of
                      (r, st') \<Rightarrow> ((r, [30]), st')))
         else ((Inr (edit_videoPath job), []), st))"

text \<open>
  The outro block: it runs when the template asks for an outro and appends the first
  video file of the outro directory. An error of \<open>addOutro\<close> is caught ("continue without
  outro instead of failing completely"), and so is an error in reading the directory:
  the block always returns a path, the one it was given when no outro was appended.
\<close>

definition editorOutro ::
  "env \<Rightarrow> VideoService \<Rightarrow> string \<Rightarrow> clock \<Rightarrow> editorJob \<Rightarrow> string \<Rightarrow> state
     \<Rightarrow> (string \<times> nat list) \<times> state" where
  "editorOutro e svc outroDir clk job processedPath st =
     (if truthy (hasOutro (edit_template job))
      then (case videoOutros e of
              None \<Rightarrow> ((processedPath, [70]), st)
            | Some [] \<Rightarrow> ((processedPath, [70]), st)
            | Some (first # others) \<Rightarrow>
                (case addOutro e svc processedPath (JStr (path_join outroDir first))
                        (''with_outro_'' @ show_nat (at_outro clk) @ ''.mp4'') st of
                   (Inl outroError, st') \<Rightarrow> ((processedPath, [70]), st')
                 | (Inr withOutro, st') \<Rightarrow> ((withOutro, [70]), st')))
      else ((processedPath, []), st))"

text \<open>
  \<open>editorQueue.process\<close>: the worker of the editor. Beside the outcome it returns the
  values passed to \<open>job.progress\<close>, in the order of the calls.
\<close>

definition editorQueue_process ::
  "env \<Rightarrow> VideoService \<Rightarrow> string \<Rightarrow> clock \<Rightarrow> editorJob \<Rightarrow> state
     \<Rightarrow> ((error + editorResult) \<times> nat list) \<times> state" where
  "editorQueue_process e svc outroDir clk job st =
     (case editorReframe e svc clk job st of
        ((Inl err, progress1), st1) \<Rightarrow> ((Inl err, [10] @ progress1), st1)
      | ((Inr reframed, progress1), st1) \<Rightarrow>
          let progress2 = [10] @ progress1
                          @ (if truthy (hasIntro (edit_template job)) then [50] else [])
          in case editorOutro e svc outroDir clk job reframed st1 of
               ((processedPath, progress3), st2) \<Rightarrow>
                 let progress4 = progress2 @ progress3 @ [90]
                 in case generateThumbnail e svc processedPath
                           (''thumb_'' @ show_nat (at_thumb clk) @ ''.jpg'') st2 of
                      (Inl err, st3) \<Rightarrow> ((Inl err, progress4), st3)
                    | (Inr thumb, st3) \<Rightarrow>
                        ((Inr \<lparr>edited_success = True, edited_videoPath = processedPath,
                               edited_thumbnailPath = thumb,
                               edited_filename = basename processedPath\<rparr>,
                          progress4 @ [100]), st3))"


section \<open>The video service: the filter graph of \<open>addOutro\<close>\<close>

text \<open>
  A stream of \<open>ffprobe\<close>'s metadata. \<open>duration\<close> is the text ffprobe reports, and
  \<open>r_frame_rate\<close> the text of a fraction such as \<open>30/1\<close>.
\<close>

record stream =
  codec_type :: string
  width :: nat
  height :: nat
  r_frame_rate :: string
  duration :: string

text \<open>\<open>streams.find(s => s.codec_type === t)\<close>.\<close>

definition findStream :: "string \<Rightarrow> stream list \<Rightarrow> stream option" where
  "findStream t streams = find (\<lambda>s. codec_type s = t) streams"

text \<open>The chain that scales and pads input \<open>i\<close> to the main video's size and rate.\<close>

definition scalePad :: "string \<Rightarrow> string \<Rightarrow> string \<Rightarrow> string \<Rightarrow> string \<Rightarrow> string" where
  "scalePad i w h fps out =
     ''['' @ i @ '':v]scale='' @ w @ '':'' @ h @ '':force_original_aspect_ratio=decrease,pad=''
     @ w @ '':'' @ h @ '':(ow-iw)/2:(oh-ih)/2,setsar=1,fps='' @ fps @ ''['' @ out @ '']''"

text \<open>
  The first two entries of \<open>filterComplex\<close>: both inputs are brought to the width,
  height and frame rate of the main video. \<open>evalRate\<close> is the text of
  \<open>eval(r_frame_rate)\<close>.
\<close>

definition normalizedInputs :: "(string \<Rightarrow> string) \<Rightarrow> stream \<Rightarrow> string list" where
  "normalizedInputs evalRate mainVideo =
     (let w = show_nat (width mainVideo);
          h = show_nat (height mainVideo);
          fps = evalRate (r_frame_rate mainVideo)
      in [scalePad ''0'' w h fps ''v0'', scalePad ''1'' w h fps ''v1''])"

text \<open>
  The \<open>filterComplex\<close> array of \<open>addOutro\<close>, from the streams of the main video and of
  the outro. Reading a property of a video stream that \<open>find\<close> did not find throws a
  \<open>TypeError\<close>, which rejects the promise.
\<close>

definition addOutroFilterComplex ::
  "(string \<Rightarrow> string) \<Rightarrow> stream list \<Rightarrow> stream list \<Rightarrow> error + string list" where
  "addOutroFilterComplex evalRate mainStreams outroStreams =
     (let mainVideo = findStream ''video'' mainStreams;
          outroVideo = findStream ''video'' outroStreams;
          mainAudio = findStream ''audio'' mainStreams;
          outroAudio = findStream ''audio'' outroStreams
      in case mainVideo of
           None \<Rightarrow> Inl (TypeError ''mainVideo'')
         | Some mv \<Rightarrow>
             let filterComplex = normalizedInputs evalRate mv
             in if mainAudio \<noteq> None \<and> outroAudio \<noteq> None
                then Inr (filterComplex
                          @ [''[v0][0:a][v1][1:a]concat=n=2:v=1:a=1[outv][outa]''])
                else if mainAudio \<noteq> None \<and> outroAudio = None
                then (case outroVideo of
                        None \<Rightarrow> Inl (TypeError ''outroVideo'')
                      | Some ov \<Rightarrow>
                          Inr (filterComplex
                               @ [''aevalsrc=0:d='' @ duration ov @ ''[silentaudio]'',
                                  ''[v0][0:a][v1][silentaudio]concat=n=2:v=1:a=1[outv][outa]'']))
                else if mainAudio = None \<and> outroAudio \<noteq> None
                then Inr (filterComplex
                          @ [''aevalsrc=0:d='' @ duration mv @ ''[silentaudio]'',
                             ''[v0][silentaudio][v1][1:a]concat=n=2:v=1:a=1[outv][outa]''])
                else Inr (filterComplex @ [''[v0][v1]concat=n=2:v=1:a=0[outv]'']))"

definition addOutroOutputOptions :: "stream list \<Rightarrow> stream list \<Rightarrow> string list" where
  "addOutroOutputOptions mainStreams outroStreams =
     (let mainAudio = findStream ''audio'' mainStreams;
          outroAudio = findStream ''audio'' outroStreams;
          outputOptions = [''-c:v'', ''libx264'', ''-preset'', ''fast'', ''-crf'', ''23'']
      in if mainAudio \<noteq> None \<or> outroAudio \<noteq> None
         then outputOptions @ [''-map'', ''[outv]'', ''-map'', ''[outa]'', ''-c:a'', ''aac'']
         else outputOptions @ [''-map'', ''[outv]''])"

text \<open>The streams a command writes: the arguments of its \<open>-map\<close> options, in order.\<close>

fun mapped :: "string list \<Rightarrow> string list" where
  "mapped (a # b # rest) = (if a = ''-map'' then b # mapped rest else mapped (b # rest))"
| "mapped _ = []"


section \<open>The video service: the filter graph of the reframe\<close>

text \<open>
  The filter graphs of \<open>convertToVerticalWithExtractedCamera\<close> and
  \<open>convertToVerticalWithCamera\<close> are built as text. The model keeps the structure of
  that text: a graph is a list of chains, a chain has input labels, filters and an output
  label, and \<open>renderGraph\<close> gives back the text the source builds.
\<close>

datatype vfilter =
    Crop int int int int
  | CropAspect
  | Scale int int
  | ScaleIncrease int int
  | CropSize int int
  | DrawBox
  | RoundedMask
  | VStack
  | Overlay int int

record chain =
  chain_inputs :: "string list"
  chain_filters :: "vfilter list"
  chain_output :: string

definition quote :: string where
  "quote = [char_of (39 :: nat)]"

fun renderFilter :: "vfilter \<Rightarrow> string" where
  "renderFilter (Crop w h x y) =
     ''crop='' @ show_int w @ '':'' @ show_int h @ '':'' @ show_int x @ '':'' @ show_int y"
| "renderFilter CropAspect = ''crop='' @ quote @ ''min(iw,ih*9/16):ih'' @ quote"
| "renderFilter (Scale w h) = ''scale='' @ show_int w @ '':'' @ show_int h"
| "renderFilter (ScaleIncrease w h) =
     ''scale='' @ show_int w @ '':'' @ show_int h @ '':force_original_aspect_ratio=increase''"
| "renderFilter (CropSize w h) = ''crop='' @ show_int w @ '':'' @ show_int h"
| "renderFilter DrawBox = ''drawbox=x=0:y=0:w=iw:h=ih:color=white@0.8:t=2''"
| "renderFilter RoundedMask =
     ''format=yuva444p,geq=lum='' @ quote @ ''lum(X,Y)'' @ quote @ '':a='' @ quote
     @ ''if(lt(abs(W/2-X),W/2-10)*lt(abs(H/2-Y),H/2-10),255,0)'' @ quote"
| "renderFilter VStack = ''vstack=inputs=2''"
| "renderFilter (Overlay x y) = ''overlay='' @ show_int x @ '':'' @ show_int y"

definition renderChain :: "chain \<Rightarrow> string" where
  "renderChain c =
     concat (map (\<lambda>l. ''['' @ l @ '']'') (chain_inputs c))
     @ join '','' (map renderFilter (chain_filters c))
     @ ''['' @ chain_output c @ '']''"

definition renderGraph :: "chain list \<Rightarrow> string" where
  "renderGraph g = join '';'' (map renderChain g)"

definition targetWidth :: int where
  "targetWidth = 1080"

definition targetHeight :: int where
  "targetHeight = 1920"

text \<open>
  \<open>Math.floor(n * 0.3)\<close>. For the two numbers the source passes, 1080 and 1920, the
  double-precision product rounds to the whole numbers 324 and 576, which is what integer
  arithmetic gives.
\<close>

definition floor30 :: "int \<Rightarrow> int" where
  "floor30 n = (n * 3) div 10"

definition cameraWidth :: int where
  "cameraWidth = floor30 targetWidth"

definition cameraHeight :: int where
  "cameraHeight = floor30 targetHeight"

definition fullCameraHeight :: int where
  "fullCameraHeight = floor30 targetHeight"

definition fullGameplayHeight :: int where
  "fullGameplayHeight = targetHeight - fullCameraHeight"

text \<open>
  The \<open>switch\<close> of \<open>convertToVerticalWithExtractedCamera\<close> that gives
  \<open>(cameraX, cameraY)\<close>. The halved differences, 756 and 1344, are even.
\<close>

definition extractedCameraOffset :: "jsval \<Rightarrow> int \<times> int" where
  "extractedCameraOffset position =
     (if position = JStr ''top'' then ((targetWidth - cameraWidth) div 2, 0)
      else if position = JStr ''bottom''
        then ((targetWidth - cameraWidth) div 2, targetHeight - cameraHeight)
      else if position = JStr ''left'' then (0, (targetHeight - cameraHeight) div 2)
      else if position = JStr ''right''
        then (targetWidth - cameraWidth, (targetHeight - cameraHeight) div 2)
      else if position = JStr ''center''
        then ((targetWidth - cameraWidth) div 2, (targetHeight - cameraHeight) div 2)
      else if position = JStr ''top left'' then (0, 0)
      else if position = JStr ''top right'' then (targetWidth - cameraWidth, 0)
      else if position = JStr ''bottom left'' then (0, targetHeight - cameraHeight)
      else if position = JStr ''bottom right''
        then (targetWidth - cameraWidth, targetHeight - cameraHeight)
      else (0, targetHeight - cameraHeight))"

definition camChain :: "camRegion \<Rightarrow> int \<Rightarrow> int \<Rightarrow> chain" where
  "camChain camRegion w h =
     \<lparr>chain_inputs = [''0:v''],
      chain_filters = [Crop (cam_width camRegion) (cam_height camRegion)
                            (cam_x camRegion) (cam_y camRegion),
                       ScaleIncrease w h, CropSize w h],
      chain_output = ''cam''\<rparr>"

definition extractedCameraGraph :: "camRegion \<Rightarrow> jsval \<Rightarrow> chain list" where
  "extractedCameraGraph camRegion cameraPosition =
     (let position = positionOrDefault cameraPosition
      in if position = JStr ''bottom full''
         then [camChain camRegion targetWidth fullCameraHeight,
               \<lparr>chain_inputs = [''0:v''],
                chain_filters = [CropAspect, Scale targetWidth fullGameplayHeight],
                chain_output = ''gameplay''\<rparr>,
               \<lparr>chain_inputs = [''gameplay'', ''cam''], chain_filters = [VStack],
                chain_output = ''final''\<rparr>]
         else if position = JStr ''top full''
         then [camChain camRegion targetWidth fullCameraHeight,
               \<lparr>chain_inputs = [''0:v''],
                chain_filters = [CropAspect, Scale targetWidth fullGameplayHeight],
                chain_output = ''gameplay''\<rparr>,
               \<lparr>chain_inputs = [''cam'', ''gameplay''], chain_filters = [VStack],
                chain_output = ''final''\<rparr>]
         else
           let offset = extractedCameraOffset position
           in [\<lparr>chain_inputs = [''0:v''],
                 chain_filters = [CropAspect, Scale targetWidth targetHeight],
                 chain_output = ''main''\<rparr>,
               camChain camRegion cameraWidth cameraHeight,
               \<lparr>chain_inputs = [''cam''], chain_filters = [DrawBox],
                chain_output = ''cam_bordered''\<rparr>,
               \<lparr>chain_inputs = [''main'', ''cam_bordered''],
                chain_filters = [Overlay (fst offset) (snd offset)],
                chain_output = ''final''\<rparr>])"

text \<open>
  \<open>convertToVerticalWithCamera\<close>, the variant that takes the camera as a second video:
  its \<open>switch\<close>, with \<open>padding = 20\<close>, and its graph.
\<close>

definition padding :: int where
  "padding = 20"

definition withCameraOffset :: "jsval \<Rightarrow> int \<times> int" where
  "withCameraOffset position =
     (if position = JStr ''top'' then ((targetWidth - cameraWidth) div 2, padding)
      else if position = JStr ''bottom''
        then ((targetWidth - cameraWidth) div 2, targetHeight - cameraHeight - padding)
      else if position = JStr ''left'' then (padding, (targetHeight - cameraHeight) div 2)
      else if position = JStr ''right''
        then (targetWidth - cameraWidth - padding, (targetHeight - cameraHeight) div 2)
      else if position = JStr ''center''
        then ((targetWidth - cameraWidth) div 2, (targetHeight - cameraHeight) div 2)
      else if position = JStr ''top left'' then (padding, padding)
      else if position = JStr ''top right'' then (targetWidth - cameraWidth - padding, padding)
      else if position = JStr ''bottom left''
        then (padding, targetHeight - cameraHeight - padding)
      else if position = JStr ''bottom right''
        then (targetWidth - cameraWidth - padding, targetHeight - cameraHeight - padding)
      else (padding, targetHeight - cameraHeight - padding))"

definition withCameraGraph :: "jsval \<Rightarrow> chain list" where
  "withCameraGraph cameraPosition =
     (let offset = withCameraOffset (positionOrDefault cameraPosition)
      in [\<lparr>chain_inputs = [''0:v''],
            chain_filters = [ScaleIncrease targetWidth targetHeight,
                             CropSize targetWidth targetHeight],
            chain_output = ''gameplay''\<rparr>,
          \<lparr>chain_inputs = [''1:v''], chain_filters = [Scale cameraWidth cameraHeight],
            chain_output = ''camera_scaled''\<rparr>,
          \<lparr>chain_inputs = [''camera_scaled''], chain_filters = [RoundedMask],
            chain_output = ''camera_rounded''\<rparr>,
          \<lparr>chain_inputs = [''gameplay'', ''camera_rounded''],
            chain_filters = [Overlay (fst offset) (snd offset)],
            chain_output = ''final''\<rparr>])"


section \<open>Frame sizes in a filter graph\<close>













text \<open>
  The distance of the camera box, placed at \<open>offset\<close>, from each edge of the target
  canvas: left, top, right, bottom.
\<close>

definition edgeGaps :: "int \<times> int \<Rightarrow> int \<times> int \<times> int \<times> int" where
  "edgeGaps offset =
     (fst offset, snd offset,
      targetWidth - (fst offset + cameraWidth), targetHeight - (snd offset + cameraHeight))"


section \<open>Reading a filter graph the way the transcoding engine does\<close>

text \<open>
  The service hands its filter graphs to the engine as text, so what a command does is
  what the engine reads in that text. This section reads it back: a graph is chains
  separated by \<open>;\<close>, a chain is input labels in brackets, filters separated by \<open>,\<close>, and
  output labels in brackets; a filter is a name, \<open>=\<close>, and arguments separated by \<open>:\<close>.
  A label \<open>i:v\<close> or \<open>i:a\<close> is the video or audio pad of input number \<open>i\<close>.
\<close>

datatype kind = Video | Audio

definition isDigit :: "char \<Rightarrow> bool" where
  "isDigit c = (c \<in> set ''0123456789'')"

definition digitValue :: "char \<Rightarrow> nat" where
  "digitValue c = length (takeWhile (\<lambda>d. d \<noteq> c) ''0123456789'')"

fun read_digits :: "nat \<Rightarrow> string \<Rightarrow> nat" where
  "read_digits acc [] = acc"
| "read_digits acc (c # cs) = read_digits (acc * 10 + digitValue c) cs"

definition read_nat :: "string \<Rightarrow> nat option" where
  "read_nat s = (if s \<noteq> [] \<and> list_all isDigit s then Some (read_digits 0 s) else None)"

text \<open>
  A number of seconds or of frames per second as the engine accepts it in the graphs of
  this service: digits, then possibly a point and more digits. The text \<open>N/A\<close>, which the
  probe reports for a stream that has no duration of its own, is not one.
\<close>

definition validNumber :: "string \<Rightarrow> bool" where
  "validNumber s =
     (let whole = takeWhile isDigit s; rest = dropWhile isDigit s
      in whole \<noteq> []
         \<and> (if rest = [] then True
            else hd rest = CHR ''.'' \<and> tl rest \<noteq> [] \<and> list_all isDigit (tl rest)))"

text \<open>\<open>s.split(c)\<close>: the pieces of \<open>s\<close> between the occurrences of \<open>c\<close>.\<close>

fun splitAcc :: "char \<Rightarrow> string \<Rightarrow> string \<Rightarrow> string list" where
  "splitAcc c cur [] = [cur]"
| "splitAcc c cur (x # xs) = (if x = c then cur # splitAcc c [] xs else splitAcc c (cur @ [x]) xs)"

definition splitOn :: "char \<Rightarrow> string \<Rightarrow> string list" where
  "splitOn c s = splitAcc c [] s"

definition stripPrefix :: "string \<Rightarrow> string \<Rightarrow> string option" where
  "stripPrefix p s = (if take (length p) s = p then Some (drop (length p) s) else None)"

text \<open>
  The bracketed labels at the front of a text and what follows them. The first argument
  is the label being read, \<open>None\<close> between labels.
\<close>

fun scanLabels :: "string option \<Rightarrow> string \<Rightarrow> string list \<times> string" where
  "scanLabels None [] = ([], [])"
| "scanLabels None (c # cs) =
     (if c = CHR ''['' then scanLabels (Some []) cs else ([], c # cs))"
| "scanLabels (Some cur) [] = ([], CHR ''['' # cur)"
| "scanLabels (Some cur) (c # cs) =
     (if c = CHR '']''
      then (case scanLabels None cs of (labels, rest) \<Rightarrow> (cur # labels, rest))
      else scanLabels (Some (cur @ [c])) cs)"

text \<open>A chain: its input labels, the text of its filters, its output labels.\<close>

definition readChain :: "string \<Rightarrow> (string list \<times> string \<times> string list) option" where
  "readChain s =
     (case scanLabels None s of
        (ins, rest) \<Rightarrow>
          (case scanLabels None (dropWhile (\<lambda>c. c \<noteq> CHR ''['') rest) of
             (outs, tail) \<Rightarrow>
               if tail = [] then Some (ins, takeWhile (\<lambda>c. c \<noteq> CHR ''['') rest, outs)
               else None))"

definition filterName :: "string \<Rightarrow> string" where
  "filterName f = takeWhile (\<lambda>c. c \<noteq> CHR ''='') f"

definition filterArgs :: "string \<Rightarrow> string" where
  "filterArgs f = drop 1 (dropWhile (\<lambda>c. c \<noteq> CHR ''='') f)"

definition readOption :: "string \<Rightarrow> string \<Rightarrow> nat option" where
  "readOption key s =
     (case stripPrefix (key @ ''='') s of None \<Rightarrow> None | Some v \<Rightarrow> read_nat v)"

text \<open>
  \<open>concat=n=N:v=V:a=A\<close>: the numbers of segments, of video streams and of audio streams
  per segment.
\<close>

definition readConcat :: "string \<Rightarrow> (nat \<times> nat \<times> nat) option" where
  "readConcat f =
     (if filterName f = ''concat''
      then (case splitOn CHR '':'' (filterArgs f) of
              [n, v, a] \<Rightarrow>
                (case (readOption ''n'' n, readOption ''v'' v, readOption ''a'' a) of
                   (Some n', Some v', Some a') \<Rightarrow> Some (n', v', a')
                 | _ \<Rightarrow> None)
            | _ \<Rightarrow> None)
      else None)"

text \<open>The pad \<open>i:v\<close> or \<open>i:a\<close> of an input.\<close>

definition readPad :: "string \<Rightarrow> (nat \<times> kind) option" where
  "readPad l =
     (case read_nat (takeWhile isDigit l) of
        None \<Rightarrow> None
      | Some i \<Rightarrow>
          if dropWhile isDigit l = '':v'' then Some (i, Video)
          else if dropWhile isDigit l = '':a'' then Some (i, Audio)
          else None)"





text \<open>
  The streams a filter takes and gives, for the filters \<open>addOutro\<close> uses: \<open>scale\<close>,
  \<open>pad\<close>, \<open>setsar\<close> and \<open>fps\<close> turn one video stream into one; \<open>fps\<close> needs a rate that
  is a number; \<open>aevalsrc=e:d=t\<close> takes nothing and gives one audio stream, and the engine
  refuses it when \<open>t\<close> is not a duration; \<open>concat\<close> takes the streams of its segments and
  gives those of one segment. \<open>None\<close> is a filter the engine refuses or one this reading
  does not know.
\<close>

definition filterPads :: "string \<Rightarrow> (kind list \<times> kind list) option" where
  "filterPads f =
     (if filterName f \<in> set [''scale'', ''pad'', ''setsar''] then Some ([Video], [Video])
      else if filterName f = ''fps''
      then (if validNumber (filterArgs f) then Some ([Video], [Video]) else None)
      else if filterName f = ''aevalsrc''
      then (case splitOn CHR '':'' (filterArgs f) of
              [exprs, d] \<Rightarrow>
                (case stripPrefix ''d='' d of
                   None \<Rightarrow> None
                 | Some t \<Rightarrow> if validNumber t then Some ([], [Audio]) else None)
            | _ \<Rightarrow> None)
      else (case readConcat f of
              None \<Rightarrow> None
            | Some (n, v, a) \<Rightarrow>
                Some (concat (replicate n (replicate v Video @ replicate a Audio)),
                      replicate v Video @ replicate a Audio)))"

text \<open>The filters of a chain in a row: each feeds its one output to the next.\<close>

fun composePads :: "(kind list \<times> kind list) list \<Rightarrow> (kind list \<times> kind list) option" where
  "composePads [] = None"
| "composePads [p] = Some p"
| "composePads (p # q # rest) =
     (if snd p = fst q \<and> length (snd p) = 1
      then map_option (\<lambda>r. (fst p, snd r)) (composePads (q # rest))
      else None)"

definition chainPads :: "string \<Rightarrow> (kind list \<times> kind list) option" where
  "chainPads body =
     (case those (map filterPads (splitOn CHR '','' body)) of
        None \<Rightarrow> None
      | Some pads \<Rightarrow> composePads pads)"

text \<open>The kinds of the streams of a probed file.\<close>

definition streamKinds :: "stream list \<Rightarrow> kind list" where
  "streamKinds streams =
     List.map_filter (\<lambda>s. if codec_type s = ''video'' then Some Video
                          else if codec_type s = ''audio'' then Some Audio else None) streams"

text \<open>
  The stream behind a label: one made by an earlier chain, or the pad of an input that
  has a stream of that kind.
\<close>

definition resolve :: "kind list list \<Rightarrow> (string \<times> kind) list \<Rightarrow> string \<Rightarrow> kind option" where
  "resolve inputs made l =
     (case map_of made l of
        Some k \<Rightarrow> Some k
      | None \<Rightarrow>
          (case readPad l of
             None \<Rightarrow> None
           | Some (i, k) \<Rightarrow> if i < length inputs \<and> k \<in> set (inputs ! i) then Some k else None))"

fun readChains :: "kind list list \<Rightarrow> (string \<times> kind) list \<Rightarrow> string list
                     \<Rightarrow> (string \<times> kind) list option" where
  "readChains inputs made [] = Some made"
| "readChains inputs made (c # cs) =
     (case readChain c of
        None \<Rightarrow> None
      | Some (ins, body, outs) \<Rightarrow>
          (case chainPads body of
             None \<Rightarrow> None
           | Some (inKinds, outKinds) \<Rightarrow>
               if those (map (resolve inputs made) ins) = Some inKinds
                  \<and> length outs = length outKinds
               then readChains inputs (zip outs outKinds @ made) cs
               else None))"

text \<open>
  The streams of the output of a command with the given inputs, filter graph and \<open>-map\<close>
  arguments, in the order of the arguments; \<open>None\<close> when the engine refuses the command.
\<close>

definition graphStreams :: "kind list list \<Rightarrow> string \<Rightarrow> string list \<Rightarrow> kind list option" where
  "graphStreams inputs filterComplex maps =
     (case readChains inputs [] (splitOn CHR '';'' filterComplex) of
        None \<Rightarrow> None
      | Some made \<Rightarrow>
          those (map (\<lambda>m. case scanLabels None m of
                             ([l], []) \<Rightarrow> map_of made l
                           | _ \<Rightarrow> None) maps))"

text \<open>
  The streams of the file \<open>addOutro\<close> writes:
  \<open>command.complexFilter(filterComplex.join(';'))\<close> on the two inputs, with the \<open>-map\<close>
  arguments of the output options. \<open>None\<close> when the promise rejects.
\<close>

definition addOutroStreams ::
  "(string \<Rightarrow> string) \<Rightarrow> stream list \<Rightarrow> stream list \<Rightarrow> kind list option" where
  "addOutroStreams evalRate mainStreams outroStreams =
     (case addOutroFilterComplex evalRate mainStreams outroStreams of
        Inl err \<Rightarrow> None
      | Inr filterComplex \<Rightarrow>
          graphStreams [streamKinds mainStreams, streamKinds outroStreams]
            (join '';'' filterComplex)
            (mapped (addOutroOutputOptions mainStreams outroStreams)))"


section \<open>Notions used to state the properties of a run\<close>

text \<open>
  The clips a run acquires: the files of the downloads that end well, in the order of the
  request; none when yt-dlp is missing, since no download is then tried.
\<close>

definition acquiredPaths :: "env \<Rightarrow> VideoService \<Rightarrow> string \<Rightarrow> clip list \<Rightarrow> string list" where
  "acquiredPaths e svc cid clips =
     (if ytdlpInstalled e
      then map (\<lambda>ic. clipFilepath svc cid (fst ic))
               (filter (\<lambda>ic. succeeds e (downloadCall svc cid ic)) (enumerate 0 clips))
      else [])"

fun isDownload :: "call \<Rightarrow> bool" where
  "isDownload (YtdlpDownload _ _) = True"
| "isDownload _ = False"

fun isMerge :: "call \<Rightarrow> bool" where
  "isMerge (FFmpegMerge _ _ _) = True"
| "isMerge _ = False"

fun isOutro :: "call \<Rightarrow> bool" where
  "isOutro (FFmpegOutro _ _ _) = True"
| "isOutro _ = False"

fun isThumbnail :: "call \<Rightarrow> bool" where
  "isThumbnail (FFmpegThumbnail _ _ _) = True"
| "isThumbnail _ = False"

fun isUnlink :: "call \<Rightarrow> bool" where
  "isUnlink (Unlink _) = True"
| "isUnlink _ = False"

text \<open>The file an invocation writes.\<close>

fun outputOf :: "call \<Rightarrow> string option" where
  "outputOf (YtdlpDownload _ out) = Some out"
| "outputOf (FFmpegMerge _ _ out) = Some out"
| "outputOf (FFmpegVertical _ _ out) = Some out"
| "outputOf (FFmpegExtractedCamera _ _ _ out) = Some out"
| "outputOf (FFmpegOutro _ _ out) = Some out"
| "outputOf (FFmpegThumbnail _ _ out) = Some out"
| "outputOf (Unlink _) = None"

text \<open>The output files of the stages of job \<open>cid\<close>.\<close>

definition mergedPath :: "VideoService \<Rightarrow> string \<Rightarrow> string" where
  "mergedPath svc cid = path_join (outputDir svc) (cid @ ''_merged.mp4'')"

definition verticalPath :: "VideoService \<Rightarrow> string \<Rightarrow> string" where
  "verticalPath svc cid = path_join (outputDir svc) (cid @ ''_vertical.mp4'')"

definition withOutroPath :: "VideoService \<Rightarrow> string \<Rightarrow> string" where
  "withOutroPath svc cid = path_join (outputDir svc) (cid @ ''_final.mp4'')"

definition thumbPath :: "VideoService \<Rightarrow> string \<Rightarrow> string" where
  "thumbPath svc cid = path_join (outputDir svc) (cid @ ''_thumb.jpg'')"

definition outroInput :: "VideoService \<Rightarrow> string \<Rightarrow> options \<Rightarrow> string" where
  "outroInput svc cid opts =
     (if truthy (convertToVertical_opt opts) then verticalPath svc cid else mergedPath svc cid)"

definition finalVideo :: "VideoService \<Rightarrow> string \<Rightarrow> options \<Rightarrow> string" where
  "finalVideo svc cid opts =
     (if truthy (outroPath_opt opts) then withOutroPath svc cid else outroInput svc cid opts)"

text \<open>
  The ffmpeg invocations a run makes after the downloads when none of them fails, the
  ones it does make, since it stops at the first that fails, and the files these leave
  on disk.
\<close>

definition plannedCalls :: "VideoService \<Rightarrow> string \<Rightarrow> options \<Rightarrow> string list \<Rightarrow> call list" where
  "plannedCalls svc cid opts paths =
     [FFmpegMerge paths (mergeFilterComplex paths) (mergedPath svc cid)]
     @ (if truthy (convertToVertical_opt opts)
        then [FFmpegVertical (mergedPath svc cid) (positionOrDefault (cameraPosition_opt opts))
                (verticalPath svc cid)]
        else [])
     @ (if truthy (outroPath_opt opts)
        then [FFmpegOutro (outroInput svc cid opts) (outroPath_opt opts) (withOutroPath svc cid)]
        else [])
     @ [FFmpegThumbnail (finalVideo svc cid opts) ''00:00:01'' (thumbPath svc cid)]"

fun performed :: "env \<Rightarrow> call list \<Rightarrow> call list" where
  "performed e [] = []"
| "performed e (c # cs) = (if succeeds e c then c # performed e cs else [c])"

definition written :: "env \<Rightarrow> call list \<Rightarrow> string list" where
  "written e cs =
     List.map_filter (\<lambda>c. if succeeds e c \<or> leftBehind e c then outputOf c else None) cs"



section \<open>Example inputs\<close>

text \<open>
  A service, a job of two clips with the options the create route gives a request of the
  bundled frontend, the same options with an outro path, and a world in which every
  invocation ends well or those of one kind fail.
\<close>

definition exService :: VideoService where
  "exService = \<lparr>tempDir = ''/srv/temp'', outputDir = ''/srv/out''\<rparr>"

definition exClips :: "clip list" where
  "exClips = [\<lparr>clip_id = ''a'', url = JUndefined, thumbnail_url = JUndefined\<rparr>,
              \<lparr>clip_id = ''b'', url = JUndefined, thumbnail_url = JUndefined\<rparr>]"


definition exOptions :: options where
  "exOptions = \<lparr>convertToVertical_opt = JBool True, cameraPosition_opt = JStr ''bottom'',
                addOutro_opt = JBool True, outroPath_opt = JUndefined\<rparr>"

definition exOptionsOutro :: options where
  "exOptionsOutro = exOptions\<lparr>outroPath_opt := JStr ''/srv/outros/outro.mp4''\<rparr>"

definition allSucceed :: env where
  "allSucceed = \<lparr>ytdlpInstalled = True, succeeds = (\<lambda>c. True), leftBehind = (\<lambda>c. False),
                 previewSlug = (\<lambda>t. None), videoOutros = Some [''outro.mp4'']\<rparr>"

definition failing :: "(call \<Rightarrow> bool) \<Rightarrow> env" where
  "failing bad = allSucceed\<lparr>succeeds := (\<lambda>c. \<not> bad c)\<rparr>"


text \<open>A request that switches the outro off and names an outro file.\<close>

definition exBody :: requestBody where
  "exBody = \<lparr>req_clips = Some exClips,
              req_options = \<lparr>req_convertToVertical = JUndefined, req_cameraPosition = JUndefined,
                             req_addOutro = JBool False,
                             req_outroPath = JStr ''/srv/outros/outro.mp4'',
                             req_title = JUndefined\<rparr>\<rparr>"

text \<open>A camera region of 300 by 200 pixels at (10, 20).\<close>

definition exRegion :: camRegion where
  "exRegion = \<lparr>cam_x = 10, cam_y = 20, cam_width = 300, cam_height = 200\<rparr>"

text \<open>Streams of a video with sound and of a silent one.\<close>

definition exVideoStream :: "string \<Rightarrow> stream" where
  "exVideoStream d = \<lparr>codec_type = ''video'', width = 1080, height = 1920,
                       r_frame_rate = ''30/1'', duration = d\<rparr>"

definition exAudioStream :: stream where
  "exAudioStream = \<lparr>codec_type = ''audio'', width = 0, height = 0,
                     r_frame_rate = ''0/0'', duration = ''30.0''\<rparr>"

text \<open>An editor job that asks for a reframe with the example region and for an outro.\<close>

definition exEditorJob :: editorJob where
  "exEditorJob = \<lparr>edit_videoPath = ''/srv/uploads/video.mp4'',
                   edit_template = \<lparr>aspectRatio = JStr ''9:16'', hasIntro = JBool False,
                                    hasOutro = JBool True\<rparr>,
                   edit_cameraPosition = JStr ''top left'',
                   edit_camRegion = Some exRegion\<rparr>"

definition exClock :: clock where
  "exClock = \<lparr>at_vertical = 1, at_outro = 2, at_thumb = 3\<rparr>"

text \<open>The payload the create route queues for \<open>exBody\<close> at time 0, and its clips after the
  worker's loop.\<close>

definition exJob :: jobData where
  "exJob = \<lparr>job_clips = exClips,
             job_options = \<lparr>convertToVertical_opt = JBool True,
                             cameraPosition_opt = JStr ''bottom'',
                             addOutro_opt = JBool False,
                             outroPath_opt = JStr ''/srv/outros/outro.mp4''\<rparr>,
             job_metadata = \<lparr>title = JStr ''Untitled Compilation'', createdAt = 0\<rparr>\<rparr>"

definition exClipsWithUrls :: "clip list" where
  "exClipsWithUrls =
     [\<lparr>clip_id = ''a'', url = JStr ''https://clips.twitch.tv/a'', thumbnail_url = JUndefined\<rparr>,
      \<lparr>clip_id = ''b'', url = JStr ''https://clips.twitch.tv/b'', thumbnail_url = JUndefined\<rparr>]"


section \<open>Lemmas about the quality choice\<close>

lemma find_None_label:
  "find (\<lambda>q. quality q = l) qs = None \<longleftrightarrow> (\<forall>q \<in> set qs. quality q \<noteq> l)"
  by (auto simp: find_None_iff)

lemma find_Some_label:
  assumes "\<exists>q \<in> set qs. quality q = l"
  shows "\<exists>i < length qs. find (\<lambda>q. quality q = l) qs = Some (qs ! i)
           \<and> quality (qs ! i) = l \<and> (\<forall>j < i. quality (qs ! j) \<noteq> l)"
proof -
  from assms obtain q where "find (\<lambda>q. quality q = l) qs = Some q"
    by (cases "find (\<lambda>q. quality q = l) qs") (auto simp: find_None_iff)
  then show ?thesis
    by (auto simp: find_Some_iff)
qed


section \<open>Lemmas about the filter graphs\<close>

lemma floor30_values:
  "cameraWidth = 324" "cameraHeight = 576" "fullCameraHeight = 576" "fullGameplayHeight = 1344"
  by (simp_all add: cameraWidth_def cameraHeight_def fullCameraHeight_def fullGameplayHeight_def
        floor30_def targetWidth_def targetHeight_def)

lemmas geometry = floor30_values targetWidth_def targetHeight_def padding_def edgeGaps_def



















text \<open>The text of the graph of the example region, as the source would build it.\<close>

lemma render_overlay_example:
  "renderGraph (extractedCameraGraph exRegion (JStr ''top left''))
   = ''[0:v]crop='' @ quote @ ''min(iw,ih*9/16):ih'' @ quote @ '',scale=1080:1920[main];''
     @ ''[0:v]crop=300:200:10:20,scale=324:576:force_original_aspect_ratio=increase,''
     @ ''crop=324:576[cam];''
     @ ''[cam]drawbox=x=0:y=0:w=iw:h=ih:color=white@0.8:t=2[cam_bordered];''
     @ ''[main][cam_bordered]overlay=0:0[final]''"
  by code_simp

lemma render_stack_example:
  "renderGraph (extractedCameraGraph exRegion (JStr ''bottom full''))
   = ''[0:v]crop=300:200:10:20,scale=1080:576:force_original_aspect_ratio=increase,''
     @ ''crop=1080:576[cam];''
     @ ''[0:v]crop='' @ quote @ ''min(iw,ih*9/16):ih'' @ quote @ '',scale=1080:1344[gameplay];''
     @ ''[gameplay][cam]vstack=inputs=2[final]''"
  by code_simp


section \<open>Lemmas about reading filter text\<close>

lemma digits_table:
  "list_all (\<lambda>d. isDigit (digit d) \<and> digitValue (digit d) = d) [0 ..< 10]"
  by code_simp

lemma digit_isDigit: "d < 10 \<Longrightarrow> isDigit (digit d)"
  using digits_table by (simp add: list_all_iff)


lemma show_nat_digits_only: "list_all isDigit (show_nat n)"
proof (induction n rule: show_nat.induct)
  case (1 n)
  show ?case
  proof (cases "n < 10")
    case True
    then show ?thesis by (subst show_nat.simps) (simp add: digit_isDigit)
  next
    case False
    with 1 show ?thesis by (subst show_nat.simps) (simp add: digit_isDigit)
  qed
qed


lemma show_nat_chars: "\<not> isDigit c \<Longrightarrow> c \<notin> set (show_nat n)"
  using show_nat_digits_only [of n] by (auto simp: list_all_iff)






lemma not_digits: "\<not> isDigit CHR '':''" "\<not> isDigit CHR ''[''" "\<not> isDigit CHR '']''"
  "\<not> isDigit CHR '',''" "\<not> isDigit CHR '';''" "\<not> isDigit CHR ''=''" "\<not> isDigit CHR ''.''"
  by (simp_all add: isDigit_def)



lemma scan_inside:
  "CHR '']'' \<notin> set l \<Longrightarrow>
   scanLabels (Some cur) (l @ CHR '']'' # rest)
     = (case scanLabels None rest of (labels, r) \<Rightarrow> ((cur @ l) # labels, r))"
  by (induction l arbitrary: cur) auto

lemma scan_label:
  "CHR '']'' \<notin> set l \<Longrightarrow>
   scanLabels None (''['' @ l @ '']'' @ rest)
     = (case scanLabels None rest of (labels, r) \<Rightarrow> (l # labels, r))"
  using scan_inside [of l "[]" rest] by simp

lemma scan_labels:
  "\<forall>l \<in> set ls. CHR '']'' \<notin> set l \<Longrightarrow>
   scanLabels None (concat (map (\<lambda>l. ''['' @ l @ '']'') ls) @ rest)
     = (case scanLabels None rest of (labels, r) \<Rightarrow> (ls @ labels, r))"
proof (induction ls)
  case Nil
  then show ?case by simp
next
  case (Cons l ls)
  then have "CHR '']'' \<notin> set l" by simp
  from scan_label [OF this, of "concat (map (\<lambda>l. ''['' @ l @ '']'') ls) @ rest"] Cons
  show ?case by (simp split: prod.splits)
qed

lemma scan_body: "CHR ''['' \<notin> set body \<Longrightarrow> body \<noteq> [] \<Longrightarrow> scanLabels None (body @ rest) = ([], body @ rest)"
  by (cases body) auto

lemma readChain_form:
  assumes "\<forall>l \<in> set ins. CHR '']'' \<notin> set l" "\<forall>l \<in> set outs. CHR '']'' \<notin> set l"
      and "CHR ''['' \<notin> set body" "body \<noteq> []"
  shows "readChain (concat (map (\<lambda>l. ''['' @ l @ '']'') ins) @ body
                    @ concat (map (\<lambda>l. ''['' @ l @ '']'') outs))
           = Some (ins, body, outs)"
proof -
  let ?outs = "concat (map (\<lambda>l. ''['' @ l @ '']'') outs)"
  have a: "scanLabels None (concat (map (\<lambda>l. ''['' @ l @ '']'') ins) @ body @ ?outs)
             = (ins, body @ ?outs)"
    using scan_labels [OF assms(1), of "body @ ?outs"] scan_body [OF assms(3,4), of ?outs]
    by simp
  have b: "dropWhile (\<lambda>c. c \<noteq> CHR ''['') (body @ ?outs) = ?outs"
    using assms(3) by (cases outs) (auto simp: dropWhile_append)
  have c: "takeWhile (\<lambda>c. c \<noteq> CHR ''['') (body @ ?outs) = body"
    using assms(3) by (cases outs) (auto simp: takeWhile_append)
  have d: "scanLabels None ?outs = (outs, [])"
    using scan_labels [OF assms(2), of "[]"] by simp
  show ?thesis
    unfolding readChain_def a prod.case b c d by simp
qed

lemma splitAcc_skip: "c \<notin> set a \<Longrightarrow> splitAcc c cur (a @ rest) = splitAcc c (cur @ a) rest"
  by (induction a arbitrary: cur) auto

lemma splitAcc_last: "c \<notin> set a \<Longrightarrow> splitAcc c cur a = [cur @ a]"
  using splitAcc_skip [of c a cur "[]"] by simp

lemma splitOn_join:
  "xs \<noteq> [] \<Longrightarrow> \<forall>x \<in> set xs. c \<notin> set x \<Longrightarrow> splitOn c (join [c] xs) = xs"
proof (induction "[c]" xs rule: join.induct)
  case 1
  then show ?case by simp
next
  case (2 x)
  then show ?case by (simp add: splitOn_def splitAcc_last)
next
  case (3 x y ys)
  then show ?case by (simp add: splitOn_def splitAcc_skip)
qed









lemma validNumber_chars:
  assumes "validNumber s" "c \<in> set s"
  shows "isDigit c \<or> c = CHR ''.''"
proof -
  have "set s = set (takeWhile isDigit s) \<union> set (dropWhile isDigit s)"
    by (metis set_append takeWhile_dropWhile_id)
  with assms(2) have "c \<in> set (takeWhile isDigit s) \<or> c \<in> set (dropWhile isDigit s)"
    by simp
  then show ?thesis
  proof
    assume "c \<in> set (takeWhile isDigit s)"
    then show ?thesis by (auto dest: set_takeWhileD)
  next
    assume c: "c \<in> set (dropWhile isDigit s)"
    then have ne: "dropWhile isDigit s \<noteq> []"
      by (cases "dropWhile isDigit s") (simp_all del: dropWhile_eq_Nil_conv)
    with assms(1) have "hd (dropWhile isDigit s) = CHR ''.''"
      "list_all isDigit (tl (dropWhile isDigit s))"
      by (simp_all add: validNumber_def Let_def)
    moreover from ne c have "c = hd (dropWhile isDigit s) \<or> c \<in> set (tl (dropWhile isDigit s))"
      by (cases "dropWhile isDigit s") auto
    ultimately show ?thesis by (auto simp: list_all_iff)
  qed
qed

lemma validNumber_plain:
  "validNumber s \<Longrightarrow> \<not> isDigit c \<Longrightarrow> c \<noteq> CHR ''.'' \<Longrightarrow> c \<notin> set s"
  using validNumber_chars by blast

lemma scalePad_text:
  "scalePad i w h fps out =
     concat (map (\<lambda>l. ''['' @ l @ '']'') [i @ '':v''])
     @ (''scale='' @ w @ '':'' @ h @ '':force_original_aspect_ratio=decrease,pad=''
        @ w @ '':'' @ h @ '':(ow-iw)/2:(oh-ih)/2,setsar=1,fps='' @ fps)
     @ concat (map (\<lambda>l. ''['' @ l @ '']'') [out])"
  by (simp add: scalePad_def)

lemma readChain_scalePad:
  assumes "CHR '']'' \<notin> set i" "CHR '']'' \<notin> set out"
      and "CHR ''['' \<notin> set w" "CHR ''['' \<notin> set h" "CHR ''['' \<notin> set fps"
  shows "readChain (scalePad i w h fps out)
           = Some ([i @ '':v''],
                   ''scale='' @ w @ '':'' @ h @ '':force_original_aspect_ratio=decrease,pad=''
                   @ w @ '':'' @ h @ '':(ow-iw)/2:(oh-ih)/2,setsar=1,fps='' @ fps,
                   [out])"
  unfolding scalePad_text
  by (rule readChain_form) (use assms in simp_all)

lemma filter_names:
  "filterName (''scale='' @ a) = ''scale''" "filterName (''pad='' @ a) = ''pad''"
  "filterName (''setsar='' @ a) = ''setsar''" "filterName (''fps='' @ a) = ''fps''"
  "filterArgs (''fps='' @ a) = a"
  "filterName (''aevalsrc='' @ a) = ''aevalsrc''" "filterArgs (''aevalsrc='' @ a) = a"
  by (simp_all add: filterName_def filterArgs_def)

lemma chainPads_scalePad:
  assumes "CHR '','' \<notin> set w" "CHR '','' \<notin> set h" "validNumber fps"
  shows "chainPads (''scale='' @ w @ '':'' @ h @ '':force_original_aspect_ratio=decrease,pad=''
                    @ w @ '':'' @ h @ '':(ow-iw)/2:(oh-ih)/2,setsar=1,fps='' @ fps)
           = Some ([Video], [Video])"
proof -
  from assms(3) have f: "CHR '','' \<notin> set fps"
    by (rule validNumber_plain) (simp_all add: not_digits)
  have "splitOn CHR '','' (''scale='' @ w @ '':'' @ h @ '':force_original_aspect_ratio=decrease,pad=''
                    @ w @ '':'' @ h @ '':(ow-iw)/2:(oh-ih)/2,setsar=1,fps='' @ fps)
          = [''scale='' @ (w @ '':'' @ h @ '':force_original_aspect_ratio=decrease''),
             ''pad='' @ (w @ '':'' @ h @ '':(ow-iw)/2:(oh-ih)/2''),
             ''setsar='' @ ''1'', ''fps='' @ fps]"
    using assms(1,2) f by (simp add: splitOn_def splitAcc_skip splitAcc_last)
  then show ?thesis
    unfolding chainPads_def
    by (simp only: list.map filterPads_def filter_names those.simps)
       (simp add: assms(3))
qed

lemma readChain_silent:
  assumes "CHR ''['' \<notin> set d"
  shows "readChain (''aevalsrc=0:d='' @ d @ ''[silentaudio]'')
           = Some ([], ''aevalsrc=0:d='' @ d, [''silentaudio''])"
proof -
  have "readChain (concat (map (\<lambda>l. ''['' @ l @ '']'') []) @ (''aevalsrc=0:d='' @ d)
                    @ concat (map (\<lambda>l. ''['' @ l @ '']'') [''silentaudio'']))
          = Some ([], ''aevalsrc=0:d='' @ d, [''silentaudio''])"
    by (rule readChain_form) (use assms in simp_all)
  then show ?thesis by simp
qed

lemma chainPads_silent:
  assumes "validNumber d"
  shows "chainPads (''aevalsrc=0:d='' @ d) = Some ([], [Audio])"
proof -
  have c: "CHR '','' \<notin> set d" "CHR '':'' \<notin> set d"
    by (rule validNumber_plain [OF assms]; simp add: not_digits)+
  have s: "splitOn CHR '','' (''aevalsrc=0:d='' @ d) = [''aevalsrc='' @ (''0:d='' @ d)]"
    using c by (simp add: splitOn_def splitAcc_skip splitAcc_last)
  have a: "splitOn CHR '':'' (''0:d='' @ d) = [''0'', ''d='' @ d]"
    using c by (simp add: splitOn_def splitAcc_skip splitAcc_last)
  have p: "stripPrefix ''d='' (CHR ''d'' # CHR ''='' # d) = Some d"
    by (simp add: stripPrefix_def)
  show ?thesis
    unfolding chainPads_def s
    by (simp only: list.map filterPads_def filter_names a)
       (simp add: p assms)
qed

lemma silent_no_duration:
  "readChain ''aevalsrc=0:d=N/A[silentaudio]'' = Some ([], ''aevalsrc=0:d=N/A'', [''silentaudio''])"
  "chainPads ''aevalsrc=0:d=N/A'' = None"
  by code_simp+

lemma concat_chains:
  "readChain ''[v0][0:a][v1][1:a]concat=n=2:v=1:a=1[outv][outa]''
     = Some ([''v0'', ''0:a'', ''v1'', ''1:a''], ''concat=n=2:v=1:a=1'', [''outv'', ''outa''])"
  "readChain ''[v0][0:a][v1][silentaudio]concat=n=2:v=1:a=1[outv][outa]''
     = Some ([''v0'', ''0:a'', ''v1'', ''silentaudio''], ''concat=n=2:v=1:a=1'', [''outv'', ''outa''])"
  "readChain ''[v0][silentaudio][v1][1:a]concat=n=2:v=1:a=1[outv][outa]''
     = Some ([''v0'', ''silentaudio'', ''v1'', ''1:a''], ''concat=n=2:v=1:a=1'', [''outv'', ''outa''])"
  "readChain ''[v0][v1]concat=n=2:v=1:a=0[outv]''
     = Some ([''v0'', ''v1''], ''concat=n=2:v=1:a=0'', [''outv''])"
  "chainPads ''concat=n=2:v=1:a=1'' = Some ([Video, Audio, Video, Audio], [Video, Audio])"
  "chainPads ''concat=n=2:v=1:a=0'' = Some ([Video, Video], [Video])"
  by code_simp+

lemma input_pads:
  "readPad ''0:v'' = Some (0, Video)" "readPad ''1:v'' = Some (1, Video)"
  "readPad ''0:a'' = Some (0, Audio)" "readPad ''1:a'' = Some (1, Audio)"
  by code_simp+

lemma map_labels:
  "scanLabels None ''[outv]'' = ([''outv''], [])" "scanLabels None ''[outa]'' = ([''outa''], [])"
  by code_simp+

lemma streamKinds_video:
  "Video \<in> set (streamKinds ss) \<longleftrightarrow> findStream ''video'' ss \<noteq> None"
  by (induction ss) (auto simp: streamKinds_def findStream_def)

lemma streamKinds_audio:
  "Audio \<in> set (streamKinds ss) \<longleftrightarrow> findStream ''audio'' ss \<noteq> None"
  by (induction ss) (auto simp: streamKinds_def findStream_def)


section \<open>Lemmas about a run\<close>

lemma show_nat_digits:
  "show_nat 0 = ''0''" "show_nat 1 = ''1''" "show_nat (Suc 0) = ''1''" "show_nat 2 = ''2''"
  "show_nat (Suc (Suc 0)) = ''2''"
  by (simp_all add: show_nat.simps digit_def)

lemma fulfilled_downloads:
  "fulfilledValues (map (\<lambda>ic. if succeeds e (downloadCall svc cid ic)
                              then Fulfilled (clipFilepath svc cid (fst ic))
                              else Rejected (ToolFailure (downloadCall svc cid ic))) ics)
   = map (\<lambda>ic. clipFilepath svc cid (fst ic))
         (filter (\<lambda>ic. succeeds e (downloadCall svc cid ic)) ics)"
  by (induction ics) auto

lemma downloadedPaths_acquired:
  "ytdlpInstalled e \<Longrightarrow>
     fulfilledValues (downloadResults e svc cid clips) = acquiredPaths e svc cid clips"
  by (simp add: downloadResults_def acquiredPaths_def fulfilled_downloads)

lemma cleanup_eq:
  "cleanup ps st = \<lparr>files = files st - set ps, calls = calls st @ map Unlink ps\<rparr>"
  by (induction ps arbitrary: st) auto

lemma invoke_eq:
  "invoke e c out st =
     (if succeeds e c
      then (Inr out, \<lparr>files = insert out (files st), calls = calls st @ [c]\<rparr>)
      else (Inl (ToolFailure c),
            \<lparr>files = (if leftBehind e c then insert out (files st) else files st),
             calls = calls st @ [c]\<rparr>))"
  by (simp add: invoke_def Let_def)

lemmas stage_defs =
  mergeClips_def convertToVertical_def addOutro_def generateThumbnail_def invoke_eq
  mergedPath_def verticalPath_def withOutroPath_def thumbPath_def outroInput_def finalVideo_def

lemma calls_start: "calls (start F) = []"
  by (simp add: start_def)

lemma files_start: "files (start F) = F"
  by (simp add: start_def)

lemma run_not_installed:
  "\<not> ytdlpInstalled e \<Longrightarrow>
   createCompilation e svc cid clips opts st =
     (Inl (Error ''yt-dlp is not installed. Please install it to download Twitch clips.''), st)"
  by (simp add: createCompilation_def compilationSteps_def)

lemma run_nothing_acquired:
  "ytdlpInstalled e \<Longrightarrow> acquiredPaths e svc cid clips = [] \<Longrightarrow>
   createCompilation e svc cid clips opts (start F) =
     (Inl (Error ''Failed to download any clips''),
      \<lparr>files = F \<union> set (leftoverDownloads e svc cid clips),
       calls = map (downloadCall svc cid) (enumerate 0 clips)\<rparr>)"
  by (simp add: createCompilation_def compilationSteps_def downloadedPaths_acquired start_def)

text \<open>
  A run that acquires a clip, in closed form: it makes the planned invocations up to the
  first that fails, fails with that one's error or returns the result, and in both cases
  ends by unlinking the acquired clips, and nothing else.
\<close>

lemma run_closed_form:
  assumes inst: "ytdlpInstalled e" and ne: "acquiredPaths e svc cid clips \<noteq> []"
  shows "createCompilation e svc cid clips opts (start F) =
     (if list_all (succeeds e) (plannedCalls svc cid opts (acquiredPaths e svc cid clips))
      then Inr \<lparr>success = True, compilationId = cid, videoPath = finalVideo svc cid opts,
                thumbnailPath = thumbPath svc cid,
                filename = basename (finalVideo svc cid opts)\<rparr>
      else Inl (ToolFailure
                  (last (performed e
                           (plannedCalls svc cid opts (acquiredPaths e svc cid clips))))),
      \<lparr>files = (F \<union> set (acquiredPaths e svc cid clips)
                  \<union> set (leftoverDownloads e svc cid clips)
                  \<union> set (written e
                           (performed e
                              (plannedCalls svc cid opts (acquiredPaths e svc cid clips)))))
                - set (acquiredPaths e svc cid clips),
        calls = map (downloadCall svc cid) (enumerate 0 clips)
                @ performed e (plannedCalls svc cid opts (acquiredPaths e svc cid clips))
                @ map Unlink (acquiredPaths e svc cid clips)\<rparr>)"
  using assms
  apply (cases "truthy (convertToVertical_opt opts)"; cases "truthy (outroPath_opt opts)";
      cases "succeeds e (FFmpegMerge (acquiredPaths e svc cid clips)
                           (mergeFilterComplex (acquiredPaths e svc cid clips))
                           (mergedPath svc cid))";
      cases "succeeds e (FFmpegVertical (mergedPath svc cid)
                           (positionOrDefault (cameraPosition_opt opts))
                           (verticalPath svc cid))";
      cases "succeeds e (FFmpegOutro (outroInput svc cid opts) (outroPath_opt opts)
                           (withOutroPath svc cid))";
      cases "succeeds e (FFmpegThumbnail (finalVideo svc cid opts) ''00:00:01''
                           (thumbPath svc cid))")
                   apply (simp_all add: createCompilation_def compilationSteps_def start_def
      downloadedPaths_acquired stage_defs Let_def cleanup_eq
      plannedCalls_def written_def List.map_filter_simps)
                   apply (auto simp: insert_commute)
  done

lemma calls_run_cases:
  "calls (snd (createCompilation e svc cid clips opts (start F))) =
     (if \<not> ytdlpInstalled e then []
      else if acquiredPaths e svc cid clips = []
      then map (downloadCall svc cid) (enumerate 0 clips)
      else map (downloadCall svc cid) (enumerate 0 clips)
           @ performed e (plannedCalls svc cid opts (acquiredPaths e svc cid clips))
           @ map Unlink (acquiredPaths e svc cid clips))"
  by (simp add: run_not_installed run_nothing_acquired run_closed_form calls_start)

lemma performed_subset: "set (performed e cs) \<subseteq> set cs"
  by (induction cs) auto

lemma performed_all: "list_all (succeeds e) cs \<Longrightarrow> performed e cs = cs"
  by (induction cs) auto

lemma performed_Nil_iff: "performed e cs = [] \<longleftrightarrow> cs = []"
  by (cases cs) auto

lemma performed_failed_is_last:
  "c \<in> set (performed e cs) \<Longrightarrow> \<not> succeeds e c \<Longrightarrow>
     last (performed e cs) = c \<and> \<not> list_all (succeeds e) cs"
  by (induction cs) (auto simp: performed_Nil_iff split: if_splits)

lemma performed_filter_none:
  "\<forall>d \<in> set cs. \<not> P d \<Longrightarrow> filter P (performed e cs) = []"
  using performed_subset [of e cs] by (auto simp: filter_empty_conv)

lemma filter_downloads:
  "filter isMerge (map (downloadCall svc cid) ics) = []"
  "filter isUnlink (map (downloadCall svc cid) ics) = []"
  "filter isDownload (map (downloadCall svc cid) ics) = map (downloadCall svc cid) ics"
  by (induction ics) (auto simp: downloadCall_def)

lemma filter_unlinks:
  "filter isMerge (map Unlink ps) = []"
  "filter isDownload (map Unlink ps) = []"
  "filter isUnlink (map Unlink ps) = map Unlink ps"
  by (induction ps) auto




lemma performed_planned_no_unlink:
  "filter isUnlink (performed e (plannedCalls svc cid opts ps)) = []"
  by (rule performed_filter_none) (auto simp: plannedCalls_def)

lemma not_stage_download:
  "c \<in> set (map (downloadCall svc cid) ics) \<Longrightarrow> \<not> isThumbnail c \<and> \<not> isOutro c"
  by (auto simp: downloadCall_def)

lemma not_stage_unlink:
  "c \<in> set (map Unlink ps) \<Longrightarrow> \<not> isThumbnail c \<and> \<not> isOutro c"
  by auto

lemma stage_call_performed:
  assumes "c \<in> set (calls (snd (createCompilation e svc cid clips opts (start F))))"
    and "isThumbnail c \<or> isOutro c"
  shows "ytdlpInstalled e \<and> acquiredPaths e svc cid clips \<noteq> []
         \<and> c \<in> set (performed e (plannedCalls svc cid opts (acquiredPaths e svc cid clips)))"
  using assms not_stage_download [of c svc cid "enumerate 0 clips"]
    not_stage_unlink [of c "acquiredPaths e svc cid clips"]
  by (auto simp: calls_run_cases split: if_splits)

lemma completed_run:
  assumes "fst (createCompilation e svc cid clips opts (start F)) = Inr r"
  shows "ytdlpInstalled e \<and> acquiredPaths e svc cid clips \<noteq> []
       \<and> list_all (succeeds e) (plannedCalls svc cid opts (acquiredPaths e svc cid clips))
       \<and> r = \<lparr>success = True, compilationId = cid, videoPath = finalVideo svc cid opts,
               thumbnailPath = thumbPath svc cid,
               filename = basename (finalVideo svc cid opts)\<rparr>"
proof -
  from assms have inst: "ytdlpInstalled e"
    by (cases "ytdlpInstalled e") (simp_all add: run_not_installed)
  from assms inst have ne: "acquiredPaths e svc cid clips \<noteq> []"
    by (cases "acquiredPaths e svc cid clips = []") (simp_all add: run_nothing_acquired)
  from assms inst ne show ?thesis
    by (simp add: run_closed_form split: if_splits)
qed

lemma acquired_download:
  assumes "ytdlpInstalled e" "ic \<in> set (enumerate 0 clips)"
    "succeeds e (downloadCall svc cid ic)" "outputOf (downloadCall svc cid ic) = Some out"
  shows "out \<in> set (acquiredPaths e svc cid clips)"
  using assms by (auto simp: acquiredPaths_def downloadCall_def)

lemma written_member:
  "c \<in> set cs \<Longrightarrow> succeeds e c \<Longrightarrow> outputOf c = Some out \<Longrightarrow> out \<in> set (written e cs)"
  by (induction cs) (auto simp: written_def List.map_filter_simps split: option.splits)

lemmas ex_defs = exService_def exClips_def exOptions_def exOptionsOutro_def allSucceed_def
  failing_def exClipsWithUrls_def

lemmas eval_simps = acquiredPaths_def leftoverDownloads_def downloadCall_def clipFilepath_def
  path_join_def
  plannedCalls_def mergeFilterComplex_def mergedPath_def verticalPath_def withOutroPath_def
  thumbPath_def outroInput_def finalVideo_def positionOrDefault_def written_def
  List.map_filter_simps show_nat_digits enumerate_simps basename_def

text \<open>The example job in three worlds: the thumbnail fails, the outro fails, all is well.\<close>

lemma ex_run_thumbnail_fails:
  "createCompilation (failing isThumbnail) exService ''j'' exClips exOptions (start {}) =
     (Inl (ToolFailure (FFmpegThumbnail ''/srv/out/j_vertical.mp4'' ''00:00:01''
                          ''/srv/out/j_thumb.jpg'')),
      \<lparr>files = {''/srv/out/j_merged.mp4'', ''/srv/out/j_vertical.mp4''},
       calls = [YtdlpDownload ''a'' ''/srv/temp/j_clip_0.mp4'',
                YtdlpDownload ''b'' ''/srv/temp/j_clip_1.mp4'',
                FFmpegMerge [''/srv/temp/j_clip_0.mp4'', ''/srv/temp/j_clip_1.mp4'']
                  ''[0:v][0:a][1:v][1:a]concat=n=2:v=1:a=1[outv][outa]''
                  ''/srv/out/j_merged.mp4'',
                FFmpegVertical ''/srv/out/j_merged.mp4'' (JStr ''bottom'')
                  ''/srv/out/j_vertical.mp4'',
                FFmpegThumbnail ''/srv/out/j_vertical.mp4'' ''00:00:01''
                  ''/srv/out/j_thumb.jpg'',
                Unlink ''/srv/temp/j_clip_0.mp4'', Unlink ''/srv/temp/j_clip_1.mp4'']\<rparr>)"
proof -
  have acq: "acquiredPaths (failing isThumbnail) exService ''j'' exClips
               = [''/srv/temp/j_clip_0.mp4'', ''/srv/temp/j_clip_1.mp4'']"
    by (simp add: ex_defs eval_simps)
  have inst: "ytdlpInstalled (failing isThumbnail)"
    by (simp add: ex_defs)
  have ne: "acquiredPaths (failing isThumbnail) exService ''j'' exClips \<noteq> []"
    by (simp add: acq)
  show ?thesis
    unfolding run_closed_form [OF inst ne] acq
    by (auto simp: ex_defs eval_simps)
qed

lemma ex_run_outro_fails:
  "createCompilation (failing isOutro) exService ''j'' exClips exOptionsOutro (start {}) =
     (Inl (ToolFailure (FFmpegOutro ''/srv/out/j_vertical.mp4'' (JStr ''/srv/outros/outro.mp4'')
                          ''/srv/out/j_final.mp4'')),
      \<lparr>files = {''/srv/out/j_merged.mp4'', ''/srv/out/j_vertical.mp4''},
       calls = [YtdlpDownload ''a'' ''/srv/temp/j_clip_0.mp4'',
                YtdlpDownload ''b'' ''/srv/temp/j_clip_1.mp4'',
                FFmpegMerge [''/srv/temp/j_clip_0.mp4'', ''/srv/temp/j_clip_1.mp4'']
                  ''[0:v][0:a][1:v][1:a]concat=n=2:v=1:a=1[outv][outa]''
                  ''/srv/out/j_merged.mp4'',
                FFmpegVertical ''/srv/out/j_merged.mp4'' (JStr ''bottom'')
                  ''/srv/out/j_vertical.mp4'',
                FFmpegOutro ''/srv/out/j_vertical.mp4'' (JStr ''/srv/outros/outro.mp4'')
                  ''/srv/out/j_final.mp4'',
                Unlink ''/srv/temp/j_clip_0.mp4'', Unlink ''/srv/temp/j_clip_1.mp4'']\<rparr>)"
proof -
  have acq: "acquiredPaths (failing isOutro) exService ''j'' exClips
               = [''/srv/temp/j_clip_0.mp4'', ''/srv/temp/j_clip_1.mp4'']"
    by (simp add: ex_defs eval_simps)
  have inst: "ytdlpInstalled (failing isOutro)"
    by (simp add: ex_defs)
  have ne: "acquiredPaths (failing isOutro) exService ''j'' exClips \<noteq> []"
    by (simp add: acq)
  show ?thesis
    unfolding run_closed_form [OF inst ne] acq
    by (auto simp: ex_defs eval_simps)
qed

lemma ex_run_all_succeed:
  "createCompilation allSucceed exService ''j'' cs
      (exOptionsOutro\<lparr>addOutro_opt := a\<rparr>) (start {}) =
     (Inr \<lparr>success = True, compilationId = ''j'', videoPath = ''/srv/out/j_final.mp4'',
           thumbnailPath = ''/srv/out/j_thumb.jpg'', filename = ''j_final.mp4''\<rparr>,
      \<lparr>files = {''/srv/out/j_merged.mp4'', ''/srv/out/j_vertical.mp4'',
                ''/srv/out/j_final.mp4'', ''/srv/out/j_thumb.jpg''},
       calls = [YtdlpDownload ''a'' ''/srv/temp/j_clip_0.mp4'',
                YtdlpDownload ''b'' ''/srv/temp/j_clip_1.mp4'',
                FFmpegMerge [''/srv/temp/j_clip_0.mp4'', ''/srv/temp/j_clip_1.mp4'']
                  ''[0:v][0:a][1:v][1:a]concat=n=2:v=1:a=1[outv][outa]''
                  ''/srv/out/j_merged.mp4'',
                FFmpegVertical ''/srv/out/j_merged.mp4'' (JStr ''bottom'')
                  ''/srv/out/j_vertical.mp4'',
                FFmpegOutro ''/srv/out/j_vertical.mp4'' (JStr ''/srv/outros/outro.mp4'')
                  ''/srv/out/j_final.mp4'',
                FFmpegThumbnail ''/srv/out/j_final.mp4'' ''00:00:01''
                  ''/srv/out/j_thumb.jpg'',
                Unlink ''/srv/temp/j_clip_0.mp4'', Unlink ''/srv/temp/j_clip_1.mp4'']\<rparr>)"
  if "cs = exClips \<or> cs = exClipsWithUrls"
proof -
  from that
  have acq: "acquiredPaths allSucceed exService ''j'' cs
               = [''/srv/temp/j_clip_0.mp4'', ''/srv/temp/j_clip_1.mp4'']"
    by (auto simp: ex_defs eval_simps)
  have inst: "ytdlpInstalled allSucceed"
    by (simp add: ex_defs)
  have ne: "acquiredPaths allSucceed exService ''j'' cs \<noteq> []"
    by (simp add: acq)
  from that show ?thesis
    unfolding run_closed_form [OF inst ne] acq
    by (auto simp: ex_defs eval_simps)
qed

text \<open>
  The editor worker at the example job, in the world where the outro stage fails: the
  error is caught, the thumbnail is taken from the reframed video, and the job completes.
\<close>

lemma editor_continues_without_outro:
  "fst (editorQueue_process (failing isOutro) exService ''/srv/outros'' exClock exEditorJob
          (start {}))
   = (Inr \<lparr>edited_success = True, edited_videoPath = ''/srv/out/vertical_1.mp4'',
            edited_thumbnailPath = ''/srv/out/thumb_3.jpg'',
            edited_filename = ''vertical_1.mp4''\<rparr>,
      [10, 30, 70, 90, 100])"
  by (simp add: editorQueue_process_def editorReframe_def editorOutro_def exEditorJob_def
        exClock_def exRegion_def ex_defs convertToVerticalWithExtractedCamera_def stage_defs
        path_join_def basename_def positionOrDefault_def show_nat.simps digit_def Let_def)


section \<open>The claims\<close>



text \<open>
  Claim C2, as amended. A failure of the thumbnail stage is fatal: whenever the
  thumbnail stage was invoked and failed, the job fails with that stage's error; and a
  job that completes has a thumbnail path, written by a thumbnail stage that ended well.
\<close>

theorem C2_thumbnail_failure_fails_job:
  "(\<forall>c \<in> set (calls (snd (createCompilation e svc cid clips opts (start F)))).
       isThumbnail c \<longrightarrow> \<not> succeeds e c \<longrightarrow>
       fst (createCompilation e svc cid clips opts (start F)) = Inl (ToolFailure c))
   \<and> (\<forall>r. fst (createCompilation e svc cid clips opts (start F)) = Inr r \<longrightarrow>
          thumbnailPath r = thumbPath svc cid
        \<and> succeeds e (FFmpegThumbnail (videoPath r) ''00:00:01'' (thumbnailPath r)))"
proof (intro conjI ballI allI impI)
  fix c
  assume c: "c \<in> set (calls (snd (createCompilation e svc cid clips opts (start F))))"
    and t: "isThumbnail c" and f: "\<not> succeeds e c"
  from stage_call_performed [OF c] t
  have inst: "ytdlpInstalled e" and ne: "acquiredPaths e svc cid clips \<noteq> []"
    and p: "c \<in> set (performed e (plannedCalls svc cid opts (acquiredPaths e svc cid clips)))"
    by simp_all
  from performed_failed_is_last [OF p f] inst ne
  show "fst (createCompilation e svc cid clips opts (start F)) = Inl (ToolFailure c)"
    by (simp add: run_closed_form)
next
  fix r
  assume r: "fst (createCompilation e svc cid clips opts (start F)) = Inr r"
  from completed_run [OF r]
  have ok: "list_all (succeeds e) (plannedCalls svc cid opts (acquiredPaths e svc cid clips))"
    and req: "r = \<lparr>success = True, compilationId = cid, videoPath = finalVideo svc cid opts,
                   thumbnailPath = thumbPath svc cid,
                   filename = basename (finalVideo svc cid opts)\<rparr>"
    by simp_all
  from ok have "succeeds e (FFmpegThumbnail (finalVideo svc cid opts) ''00:00:01''
                              (thumbPath svc cid))"
    by (simp add: plannedCalls_def)
  with req show "thumbnailPath r = thumbPath svc cid"
    and "succeeds e (FFmpegThumbnail (videoPath r) ''00:00:01'' (thumbnailPath r))"
    by simp_all
qed

theorem C2_thumbnail_failure_fails_job_witness:
  "FFmpegThumbnail ''/srv/out/j_vertical.mp4'' ''00:00:01'' ''/srv/out/j_thumb.jpg''
     \<in> set (calls (snd (createCompilation (failing isThumbnail) exService ''j'' exClips
                           exOptions (start {}))))
   \<and> \<not> succeeds (failing isThumbnail)
          (FFmpegThumbnail ''/srv/out/j_vertical.mp4'' ''00:00:01'' ''/srv/out/j_thumb.jpg'')
   \<and> fst (createCompilation (failing isThumbnail) exService ''j'' exClips exOptions (start {}))
     = Inl (ToolFailure (FFmpegThumbnail ''/srv/out/j_vertical.mp4'' ''00:00:01''
                           ''/srv/out/j_thumb.jpg''))"
proof -
  have m: "FFmpegThumbnail ''/srv/out/j_vertical.mp4'' ''00:00:01'' ''/srv/out/j_thumb.jpg''
     \<in> set (calls (snd (createCompilation (failing isThumbnail) exService ''j'' exClips
                           exOptions (start {}))))"
    by (simp add: ex_run_thumbnail_fails)
  have f: "\<not> succeeds (failing isThumbnail)
          (FFmpegThumbnail ''/srv/out/j_vertical.mp4'' ''00:00:01'' ''/srv/out/j_thumb.jpg'')"
    by (simp add: failing_def allSucceed_def)
  from C2_thumbnail_failure_fails_job
         [of "failing isThumbnail" exService "''j''" exClips exOptions "{}"] m f
  show ?thesis
    by auto
qed

text \<open>
  Claim C2 as stated fails. In the example job the merge and the reframe end well and
  the thumbnail stage fails: the job does not complete, it fails with the error of the
  thumbnail stage.
\<close>

theorem C2_thumbnail_failure_counterexample:
  "succeeds (failing isThumbnail)
     (FFmpegMerge [''/srv/temp/j_clip_0.mp4'', ''/srv/temp/j_clip_1.mp4'']
        ''[0:v][0:a][1:v][1:a]concat=n=2:v=1:a=1[outv][outa]'' ''/srv/out/j_merged.mp4'')
   \<and> succeeds (failing isThumbnail)
       (FFmpegVertical ''/srv/out/j_merged.mp4'' (JStr ''bottom'') ''/srv/out/j_vertical.mp4'')
   \<and> fst (createCompilation (failing isThumbnail) exService ''j'' exClips exOptions (start {}))
     = Inl (ToolFailure (FFmpegThumbnail ''/srv/out/j_vertical.mp4'' ''00:00:01''
                           ''/srv/out/j_thumb.jpg''))"
proof -
  have "succeeds (failing isThumbnail) c = (\<not> isThumbnail c)" for c
    by (simp add: failing_def allSucceed_def)
  then show ?thesis
    by (simp add: ex_run_thumbnail_fails)
qed

text \<open>
  Claim C3. The claim says that a failure of the append-outro stage is not fatal. In
  \<open>createCompilation\<close> it is: at the example job with an outro path, in the world where
  the outro stage fails, the merged and reframed videos are written, the outro stage is
  invoked, no thumbnail stage follows, and the job fails with the outro stage's error.
\<close>

theorem C3_outro_failure_aborts_compilation:
  "createCompilation (failing isOutro) exService ''j'' exClips exOptionsOutro (start {}) =
     (Inl (ToolFailure (FFmpegOutro ''/srv/out/j_vertical.mp4'' (JStr ''/srv/outros/outro.mp4'')
                          ''/srv/out/j_final.mp4'')),
      \<lparr>files = {''/srv/out/j_merged.mp4'', ''/srv/out/j_vertical.mp4''},
       calls = [YtdlpDownload ''a'' ''/srv/temp/j_clip_0.mp4'',
                YtdlpDownload ''b'' ''/srv/temp/j_clip_1.mp4'',
                FFmpegMerge [''/srv/temp/j_clip_0.mp4'', ''/srv/temp/j_clip_1.mp4'']
                  ''[0:v][0:a][1:v][1:a]concat=n=2:v=1:a=1[outv][outa]''
                  ''/srv/out/j_merged.mp4'',
                FFmpegVertical ''/srv/out/j_merged.mp4'' (JStr ''bottom'')
                  ''/srv/out/j_vertical.mp4'',
                FFmpegOutro ''/srv/out/j_vertical.mp4'' (JStr ''/srv/outros/outro.mp4'')
                  ''/srv/out/j_final.mp4'',
                Unlink ''/srv/temp/j_clip_0.mp4'', Unlink ''/srv/temp/j_clip_1.mp4'']\<rparr>)"
  by (rule ex_run_outro_fails)

text \<open>
  Claim C4. The streams of the file \<open>addOutro\<close> writes, when both inputs have a video
  stream and the frame rate of the main video is a number. With audio on both sides the
  two are concatenated as they are, and with no audio the concatenation is video only:
  one video stream and one or no audio stream. With audio on one side only, a silent
  source is put in for the missing track, with the duration the probe reports for the
  video stream of the silent side: when that duration is a number the output has one
  video and one audio stream; when the probe reports \<open>N/A\<close>, as it does for the streams
  of a Matroska or WebM file, the engine refuses the graph and \<open>addOutro\<close> writes
  nothing.
\<close>

theorem C4_outro_audio_reconciliation:
  assumes mv: "findStream ''video'' mainStreams = Some mv"
      and ov: "findStream ''video'' outroStreams = Some ov"
      and rate: "validNumber (evalRate (r_frame_rate mv))"
  shows "(findStream ''audio'' mainStreams \<noteq> None \<and> findStream ''audio'' outroStreams \<noteq> None \<longrightarrow>
            addOutroStreams evalRate mainStreams outroStreams = Some [Video, Audio])
       \<and> (findStream ''audio'' mainStreams \<noteq> None \<and> findStream ''audio'' outroStreams = None \<longrightarrow>
            addOutroFilterComplex evalRate mainStreams outroStreams =
              Inr (normalizedInputs evalRate mv
                   @ [''aevalsrc=0:d='' @ duration ov @ ''[silentaudio]'',
                      ''[v0][0:a][v1][silentaudio]concat=n=2:v=1:a=1[outv][outa]''])
            \<and> (validNumber (duration ov) \<longrightarrow>
                   addOutroStreams evalRate mainStreams outroStreams = Some [Video, Audio])
            \<and> (duration ov = ''N/A'' \<longrightarrow>
                   addOutroStreams evalRate mainStreams outroStreams = None))
       \<and> (findStream ''audio'' mainStreams = None \<and> findStream ''audio'' outroStreams \<noteq> None \<longrightarrow>
            addOutroFilterComplex evalRate mainStreams outroStreams =
              Inr (normalizedInputs evalRate mv
                   @ [''aevalsrc=0:d='' @ duration mv @ ''[silentaudio]'',
                      ''[v0][silentaudio][v1][1:a]concat=n=2:v=1:a=1[outv][outa]''])
            \<and> (validNumber (duration mv) \<longrightarrow>
                   addOutroStreams evalRate mainStreams outroStreams = Some [Video, Audio])
            \<and> (duration mv = ''N/A'' \<longrightarrow>
                   addOutroStreams evalRate mainStreams outroStreams = None))
       \<and> (findStream ''audio'' mainStreams = None \<and> findStream ''audio'' outroStreams = None \<longrightarrow>
            addOutroStreams evalRate mainStreams outroStreams = Some [Video])"
proof -
  define F where "F = evalRate (r_frame_rate mv)"
  define W where "W = show_nat (width mv)"
  define H where "H = show_nat (height mv)"
  define c0 where "c0 = scalePad ''0'' W H F ''v0''"
  define c1 where "c1 = scalePad ''1'' W H F ''v1''"
  define b where "b = ''scale='' @ W @ '':'' @ H @ '':force_original_aspect_ratio=decrease,pad=''
                      @ W @ '':'' @ H @ '':(ow-iw)/2:(oh-ih)/2,setsar=1,fps='' @ F"
  define inputs where "inputs = [streamKinds mainStreams, streamKinds outroStreams]"
  define both where "both = ''[v0][0:a][v1][1:a]concat=n=2:v=1:a=1[outv][outa]''"
  define mainOnly where "mainOnly = ''[v0][0:a][v1][silentaudio]concat=n=2:v=1:a=1[outv][outa]''"
  define outroOnly where "outroOnly = ''[v0][silentaudio][v1][1:a]concat=n=2:v=1:a=1[outv][outa]''"
  define neither where "neither = ''[v0][v1]concat=n=2:v=1:a=0[outv]''"
  have ni: "normalizedInputs evalRate mv = [c0, c1]"
    by (simp add: normalizedInputs_def Let_def c0_def c1_def F_def W_def H_def)
  have plainF: "c \<notin> set F" if "\<not> isDigit c" "c \<noteq> CHR ''.''" for c
    using validNumber_plain [OF rate that] by (simp add: F_def)
  have plainWH: "c \<notin> set W" "c \<notin> set H" if "\<not> isDigit c" for c
    using that by (simp_all add: W_def H_def show_nat_chars)
  have r: "readChain c0 = Some ([''0:v''], b, [''v0''])" "readChain c1 = Some ([''1:v''], b, [''v1''])"
    using readChain_scalePad [of "''0''" "''v0''" W H F] readChain_scalePad [of "''1''" "''v1''" W H F]
    by (simp_all add: c0_def c1_def b_def plainF plainWH not_digits)
  have p: "chainPads b = Some ([Video], [Video])"
    using chainPads_scalePad [of W H F] rate
    by (simp add: b_def F_def plainWH not_digits)
  have semi: "CHR '';'' \<notin> set c0" "CHR '';'' \<notin> set c1"
    by (simp_all add: c0_def c1_def scalePad_def plainF plainWH not_digits)
  have video: "Video \<in> set (streamKinds mainStreams)" "Video \<in> set (streamKinds outroStreams)"
    using mv ov by (simp_all add: streamKinds_video)
  have two: "readChains inputs [] (c0 # c1 # rest)
               = readChains inputs [(''v1'', Video), (''v0'', Video)] rest" for rest
    by (simp add: r p resolve_def input_pads video inputs_def)
  have split: "splitOn CHR '';'' (join '';'' (c0 # c1 # rest)) = c0 # c1 # rest"
    if "\<forall>x \<in> set rest. CHR '';'' \<notin> set x" for rest
    using splitOn_join [of "c0 # c1 # rest" "CHR '';''"] semi that by simp
  have streams: "graphStreams inputs (join '';'' (c0 # c1 # rest)) maps
                   = (case readChains inputs [(''v1'', Video), (''v0'', Video)] rest of
                        None \<Rightarrow> None
                      | Some made \<Rightarrow>
                          those (map (\<lambda>m. case scanLabels None m of
                                             ([l], []) \<Rightarrow> map_of made l
                                           | _ \<Rightarrow> None) maps))"
    if "\<forall>x \<in> set rest. CHR '';'' \<notin> set x" for rest maps
    unfolding graphStreams_def split [OF that] two ..
  have chains: "readChain both = Some ([''v0'', ''0:a'', ''v1'', ''1:a''], ''concat=n=2:v=1:a=1'', [''outv'', ''outa''])"
    "readChain mainOnly = Some ([''v0'', ''0:a'', ''v1'', ''silentaudio''], ''concat=n=2:v=1:a=1'', [''outv'', ''outa''])"
    "readChain outroOnly = Some ([''v0'', ''silentaudio'', ''v1'', ''1:a''], ''concat=n=2:v=1:a=1'', [''outv'', ''outa''])"
    "readChain neither = Some ([''v0'', ''v1''], ''concat=n=2:v=1:a=0'', [''outv''])"
    unfolding both_def mainOnly_def outroOnly_def neither_def by (rule concat_chains)+
  have nosemi: "CHR '';'' \<notin> set both" "CHR '';'' \<notin> set mainOnly" "CHR '';'' \<notin> set outroOnly"
    "CHR '';'' \<notin> set neither"
    by (simp_all add: both_def mainOnly_def outroOnly_def neither_def)
  have case_both: "addOutroStreams evalRate mainStreams outroStreams = Some [Video, Audio]"
    if a: "findStream ''audio'' mainStreams \<noteq> None" "findStream ''audio'' outroStreams \<noteq> None"
  proof -
    have fc: "addOutroFilterComplex evalRate mainStreams outroStreams = Inr [c0, c1, both]"
      using a mv ov by (simp add: addOutroFilterComplex_def Let_def ni both_def)
    have maps: "mapped (addOutroOutputOptions mainStreams outroStreams) = [''[outv]'', ''[outa]'']"
      using a by (simp add: addOutroOutputOptions_def Let_def)
    have audio: "Audio \<in> set (streamKinds mainStreams)" "Audio \<in> set (streamKinds outroStreams)"
      using a by (simp_all add: streamKinds_audio)
    have "graphStreams inputs (join '';'' [c0, c1, both]) [''[outv]'', ''[outa]''] = Some [Video, Audio]"
      by (subst streams)
         (simp_all add: nosemi chains concat_chains resolve_def input_pads audio inputs_def
            map_labels)
    then show ?thesis
      by (simp add: addOutroStreams_def fc maps inputs_def)
  qed
  have case_neither: "addOutroStreams evalRate mainStreams outroStreams = Some [Video]"
    if a: "findStream ''audio'' mainStreams = None" "findStream ''audio'' outroStreams = None"
  proof -
    have fc: "addOutroFilterComplex evalRate mainStreams outroStreams = Inr [c0, c1, neither]"
      using a mv ov by (simp add: addOutroFilterComplex_def Let_def ni neither_def)
    have maps: "mapped (addOutroOutputOptions mainStreams outroStreams) = [''[outv]'']"
      using a by (simp add: addOutroOutputOptions_def Let_def)
    have "graphStreams inputs (join '';'' [c0, c1, neither]) [''[outv]''] = Some [Video]"
      by (subst streams)
         (simp_all add: nosemi chains concat_chains resolve_def input_pads inputs_def map_labels)
    then show ?thesis
      by (simp add: addOutroStreams_def fc maps inputs_def)
  qed
  have one_sided:
    "(validNumber d \<longrightarrow> graphStreams inputs (join '';'' [c0, c1, ''aevalsrc=0:d='' @ d @ ''[silentaudio]'', last])
                           [''[outv]'', ''[outa]''] = Some [Video, Audio])
     \<and> (d = ''N/A'' \<longrightarrow> graphStreams inputs (join '';'' [c0, c1, ''aevalsrc=0:d='' @ d @ ''[silentaudio]'', last])
                           [''[outv]'', ''[outa]''] = None)"
    if l: "last = mainOnly \<and> Audio \<in> set (streamKinds mainStreams)
           \<or> last = outroOnly \<and> Audio \<in> set (streamKinds outroStreams)" for d last
  proof (intro conjI impI)
    assume d: "validNumber d"
    define s where "s = ''aevalsrc=0:d='' @ d @ ''[silentaudio]''"
    define sb where "sb = ''aevalsrc=0:d='' @ d"
    have plain: "CHR '';'' \<notin> set d" "CHR ''['' \<notin> set d"
      by (rule validNumber_plain [OF d]; simp add: not_digits)+
    have rs: "readChain s = Some ([], sb, [''silentaudio''])"
      using readChain_silent [OF plain(2)] by (simp add: s_def sb_def)
    have ps: "chainPads sb = Some ([], [Audio])"
      using chainPads_silent [OF d] by (simp add: sb_def)
    have ss: "CHR '';'' \<notin> set s" using plain by (simp add: s_def)
    from l have ls: "CHR '';'' \<notin> set last" using nosemi by auto
    have "graphStreams inputs (join '';'' [c0, c1, s, last]) [''[outv]'', ''[outa]'']
            = Some [Video, Audio]"
      using l
      by (subst streams)
         (auto simp: ss ls rs ps chains concat_chains resolve_def input_pads inputs_def
            map_labels)
    then show "graphStreams inputs (join '';'' [c0, c1, ''aevalsrc=0:d='' @ d @ ''[silentaudio]'', last])
                 [''[outv]'', ''[outa]''] = Some [Video, Audio]"
      by (simp add: s_def)
  next
    assume d: "d = ''N/A''"
    define s where "s = ''aevalsrc=0:d=N/A[silentaudio]''"
    have ss: "CHR '';'' \<notin> set s" by (simp add: s_def)
    from l have ls: "CHR '';'' \<notin> set last" using nosemi by auto
    have rs: "readChain s = Some ([], ''aevalsrc=0:d=N/A'', [''silentaudio''])"
      unfolding s_def by (rule silent_no_duration)
    have "graphStreams inputs (join '';'' [c0, c1, s, last]) [''[outv]'', ''[outa]''] = None"
      by (subst streams) (simp_all add: ss ls rs silent_no_duration)
    then show "graphStreams inputs (join '';'' [c0, c1, ''aevalsrc=0:d='' @ d @ ''[silentaudio]'', last])
                 [''[outv]'', ''[outa]''] = None"
      by (simp add: s_def d)
  qed
  have case_main:
    "addOutroFilterComplex evalRate mainStreams outroStreams =
       Inr (normalizedInputs evalRate mv
            @ [''aevalsrc=0:d='' @ duration ov @ ''[silentaudio]'',
               ''[v0][0:a][v1][silentaudio]concat=n=2:v=1:a=1[outv][outa]''])
     \<and> (validNumber (duration ov) \<longrightarrow>
            addOutroStreams evalRate mainStreams outroStreams = Some [Video, Audio])
     \<and> (duration ov = ''N/A'' \<longrightarrow>
            addOutroStreams evalRate mainStreams outroStreams = None)"
    if a: "findStream ''audio'' mainStreams \<noteq> None" "findStream ''audio'' outroStreams = None"
  proof -
    have fc: "addOutroFilterComplex evalRate mainStreams outroStreams
                = Inr [c0, c1, ''aevalsrc=0:d='' @ duration ov @ ''[silentaudio]'', mainOnly]"
      using a mv ov by (simp add: addOutroFilterComplex_def Let_def ni mainOnly_def)
    have maps: "mapped (addOutroOutputOptions mainStreams outroStreams) = [''[outv]'', ''[outa]'']"
      using a by (simp add: addOutroOutputOptions_def Let_def)
    have audio: "Audio \<in> set (streamKinds mainStreams)"
      using a by (simp add: streamKinds_audio)
    from one_sided [of mainOnly "duration ov"] audio
    have "(validNumber (duration ov) \<longrightarrow>
            addOutroStreams evalRate mainStreams outroStreams = Some [Video, Audio])
        \<and> (duration ov = ''N/A'' \<longrightarrow>
            addOutroStreams evalRate mainStreams outroStreams = None)"
      unfolding addOutroStreams_def fc maps sum.case inputs_def by simp
    then show ?thesis
      by (simp add: fc ni mainOnly_def)
  qed
  have case_outro:
    "addOutroFilterComplex evalRate mainStreams outroStreams =
       Inr (normalizedInputs evalRate mv
            @ [''aevalsrc=0:d='' @ duration mv @ ''[silentaudio]'',
               ''[v0][silentaudio][v1][1:a]concat=n=2:v=1:a=1[outv][outa]''])
     \<and> (validNumber (duration mv) \<longrightarrow>
            addOutroStreams evalRate mainStreams outroStreams = Some [Video, Audio])
     \<and> (duration mv = ''N/A'' \<longrightarrow>
            addOutroStreams evalRate mainStreams outroStreams = None)"
    if a: "findStream ''audio'' mainStreams = None" "findStream ''audio'' outroStreams \<noteq> None"
  proof -
    have fc: "addOutroFilterComplex evalRate mainStreams outroStreams
                = Inr [c0, c1, ''aevalsrc=0:d='' @ duration mv @ ''[silentaudio]'', outroOnly]"
      using a mv ov by (simp add: addOutroFilterComplex_def Let_def ni outroOnly_def)
    have maps: "mapped (addOutroOutputOptions mainStreams outroStreams) = [''[outv]'', ''[outa]'']"
      using a by (simp add: addOutroOutputOptions_def Let_def)
    have audio: "Audio \<in> set (streamKinds outroStreams)"
      using a by (simp add: streamKinds_audio)
    from one_sided [of outroOnly "duration mv"] audio
    have "(validNumber (duration mv) \<longrightarrow>
            addOutroStreams evalRate mainStreams outroStreams = Some [Video, Audio])
        \<and> (duration mv = ''N/A'' \<longrightarrow>
            addOutroStreams evalRate mainStreams outroStreams = None)"
      unfolding addOutroStreams_def fc maps sum.case inputs_def by simp
    then show ?thesis
      by (simp add: fc ni outroOnly_def)
  qed
  from case_both case_main case_outro case_neither show ?thesis
    by blast
qed

text \<open>
  The theorem at a main video with sound and a silent outro: with a stream duration of
  \<open>N/A\<close> the graph asks for \<open>aevalsrc=0:d=N/A\<close> and no output is written; with a duration
  of 5 seconds the output has one video and one audio stream.
\<close>

theorem C4_outro_audio_reconciliation_witness:
  "addOutroFilterComplex (\<lambda>rate. ''30'') [exVideoStream ''30.0'', exAudioStream]
       [exVideoStream ''N/A'']
     = Inr (normalizedInputs (\<lambda>rate. ''30'') (exVideoStream ''30.0'')
            @ [''aevalsrc=0:d=N/A[silentaudio]'',
               ''[v0][0:a][v1][silentaudio]concat=n=2:v=1:a=1[outv][outa]''])
   \<and> addOutroStreams (\<lambda>rate. ''30'') [exVideoStream ''30.0'', exAudioStream]
         [exVideoStream ''N/A''] = None
   \<and> addOutroStreams (\<lambda>rate. ''30'') [exVideoStream ''30.0'', exAudioStream]
         [exVideoStream ''5.0''] = Some [Video, Audio]"
proof -
  have numbers: "validNumber ''30''" "validNumber ''5.0''"
    by code_simp+
  from C4_outro_audio_reconciliation
         [where mainStreams = "[exVideoStream ''30.0'', exAudioStream]"
            and mv = "exVideoStream ''30.0''" and outroStreams = "[exVideoStream ''N/A'']"
            and ov = "exVideoStream ''N/A''" and evalRate = "\<lambda>rate. ''30''"]
       C4_outro_audio_reconciliation
         [where mainStreams = "[exVideoStream ''30.0'', exAudioStream]"
            and mv = "exVideoStream ''30.0''" and outroStreams = "[exVideoStream ''5.0'']"
            and ov = "exVideoStream ''5.0''" and evalRate = "\<lambda>rate. ''30''"]
  show ?thesis
    by (simp add: findStream_def exVideoStream_def exAudioStream_def numbers)
qed




text \<open>
  Claim C6. For a non-empty list of qualities the GraphQL strategy returns the source URL
  of one definite entry: the first entry labelled "1080" when there is one; else the first
  entry labelled "720" when there is one; else the first entry of the list.
\<close>

theorem C6_bestQuality_selection:
  assumes "qualities \<noteq> []"
  shows "\<exists>i < length qualities.
           bestQuality qualities = Some (qualities ! i)
         \<and> gqlVideoUrl (Some qualities) = Some (sourceURL (qualities ! i))
         \<and> (if \<exists>q \<in> set qualities. quality q = ''1080''
            then quality (qualities ! i) = ''1080''
               \<and> (\<forall>j < i. quality (qualities ! j) \<noteq> ''1080'')
            else if \<exists>q \<in> set qualities. quality q = ''720''
            then quality (qualities ! i) = ''720''
               \<and> (\<forall>j < i. quality (qualities ! j) \<noteq> ''720'')
            else i = 0)"
proof (cases "\<exists>q \<in> set qualities. quality q = ''1080''")
  case True
  from find_Some_label [OF True] obtain i where
    "i < length qualities"
    "find (\<lambda>q. quality q = ''1080'') qualities = Some (qualities ! i)"
    "quality (qualities ! i) = ''1080''"
    "\<forall>j < i. quality (qualities ! j) \<noteq> ''1080''"
    by blast
  with True assms show ?thesis
    by (intro exI [of _ i]) (simp add: bestQuality_def gqlVideoUrl_def)
next
  case no1080: False
  then have n1: "find (\<lambda>q. quality q = ''1080'') qualities = None"
    by (simp add: find_None_label)
  show ?thesis
  proof (cases "\<exists>q \<in> set qualities. quality q = ''720''")
    case True
    from find_Some_label [OF True] obtain i where
      "i < length qualities"
      "find (\<lambda>q. quality q = ''720'') qualities = Some (qualities ! i)"
      "quality (qualities ! i) = ''720''"
      "\<forall>j < i. quality (qualities ! j) \<noteq> ''720''"
      by blast
    with True no1080 n1 assms show ?thesis
      by (intro exI [of _ i]) (simp add: bestQuality_def gqlVideoUrl_def)
  next
    case False
    then have n2: "find (\<lambda>q. quality q = ''720'') qualities = None"
      by (simp add: find_None_label)
    from assms obtain q qs where "qualities = q # qs"
      by (cases qualities) auto
    with False no1080 n1 n2 show ?thesis
      by (intro exI [of _ 0]) (simp add: bestQuality_def gqlVideoUrl_def)
  qed
qed

theorem C6_bestQuality_selection_witness:
  "gqlVideoUrl (Some [\<lparr>sourceURL = ''u360'', quality = ''360''\<rparr>,
                      \<lparr>sourceURL = ''u720'', quality = ''720''\<rparr>,
                      \<lparr>sourceURL = ''u1080'', quality = ''1080''\<rparr>,
                      \<lparr>sourceURL = ''v1080'', quality = ''1080''\<rparr>]) = Some ''u1080''"
  using C6_bestQuality_selection
    [of "[\<lparr>sourceURL = ''u360'', quality = ''360''\<rparr>,
          \<lparr>sourceURL = ''u720'', quality = ''720''\<rparr>,
          \<lparr>sourceURL = ''u1080'', quality = ''1080''\<rparr>,
          \<lparr>sourceURL = ''v1080'', quality = ''1080''\<rparr>]"]
  by (auto simp: less_Suc_eq nth_Cons')

text \<open>
  Claim C7, as amended. For every overlay position the reframe of
  \<open>convertToVerticalWithExtractedCamera\<close> crops the camera region, scales and crops it to
  324 by 576 (30% of the target's width and height), draws the border on it and overlays
  it on the main layer at the offset of the position. That offset puts the camera flush
  against the edges the position names, with no padding, and centres it along the other
  axis. A padding of 20 pixels from the named edges exists in
  \<open>convertToVerticalWithCamera\<close> only, whose graph scales the camera without cropping it
  and draws no border.
\<close>

theorem C7_overlay_placement:
  "(positionOrDefault position \<noteq> JStr ''bottom full'' \<longrightarrow>
    positionOrDefault position \<noteq> JStr ''top full'' \<longrightarrow>
      extractedCameraGraph r position =
        [\<lparr>chain_inputs = [''0:v''], chain_filters = [CropAspect, Scale 1080 1920],
          chain_output = ''main''\<rparr>,
         \<lparr>chain_inputs = [''0:v''],
          chain_filters = [Crop (cam_width r) (cam_height r) (cam_x r) (cam_y r),
                           ScaleIncrease 324 576, CropSize 324 576],
          chain_output = ''cam''\<rparr>,
         \<lparr>chain_inputs = [''cam''], chain_filters = [DrawBox], chain_output = ''cam_bordered''\<rparr>,
         \<lparr>chain_inputs = [''main'', ''cam_bordered''],
          chain_filters = [Overlay (fst (extractedCameraOffset (positionOrDefault position)))
                                   (snd (extractedCameraOffset (positionOrDefault position)))],
          chain_output = ''final''\<rparr>])
   \<and> edgeGaps (extractedCameraOffset (JStr ''top left'')) = (0, 0, 756, 1344)
   \<and> edgeGaps (extractedCameraOffset (JStr ''top'')) = (378, 0, 378, 1344)
   \<and> edgeGaps (extractedCameraOffset (JStr ''top right'')) = (756, 0, 0, 1344)
   \<and> edgeGaps (extractedCameraOffset (JStr ''left'')) = (0, 672, 756, 672)
   \<and> edgeGaps (extractedCameraOffset (JStr ''center'')) = (378, 672, 378, 672)
   \<and> edgeGaps (extractedCameraOffset (JStr ''right'')) = (756, 672, 0, 672)
   \<and> edgeGaps (extractedCameraOffset (JStr ''bottom left'')) = (0, 1344, 756, 0)
   \<and> edgeGaps (extractedCameraOffset (JStr ''bottom'')) = (378, 1344, 378, 0)
   \<and> edgeGaps (extractedCameraOffset (JStr ''bottom right'')) = (756, 1344, 0, 0)
   \<and> withCameraGraph position =
        [\<lparr>chain_inputs = [''0:v''],
          chain_filters = [ScaleIncrease 1080 1920, CropSize 1080 1920],
          chain_output = ''gameplay''\<rparr>,
         \<lparr>chain_inputs = [''1:v''], chain_filters = [Scale 324 576],
          chain_output = ''camera_scaled''\<rparr>,
         \<lparr>chain_inputs = [''camera_scaled''], chain_filters = [RoundedMask],
          chain_output = ''camera_rounded''\<rparr>,
         \<lparr>chain_inputs = [''gameplay'', ''camera_rounded''],
          chain_filters = [Overlay (fst (withCameraOffset (positionOrDefault position)))
                                   (snd (withCameraOffset (positionOrDefault position)))],
          chain_output = ''final''\<rparr>]
   \<and> edgeGaps (withCameraOffset (JStr ''top left'')) = (20, 20, 736, 1324)
   \<and> edgeGaps (withCameraOffset (JStr ''top'')) = (378, 20, 378, 1324)
   \<and> edgeGaps (withCameraOffset (JStr ''top right'')) = (736, 20, 20, 1324)
   \<and> edgeGaps (withCameraOffset (JStr ''left'')) = (20, 672, 736, 672)
   \<and> edgeGaps (withCameraOffset (JStr ''center'')) = (378, 672, 378, 672)
   \<and> edgeGaps (withCameraOffset (JStr ''right'')) = (736, 672, 20, 672)
   \<and> edgeGaps (withCameraOffset (JStr ''bottom left'')) = (20, 1324, 736, 20)
   \<and> edgeGaps (withCameraOffset (JStr ''bottom'')) = (378, 1324, 378, 20)
   \<and> edgeGaps (withCameraOffset (JStr ''bottom right'')) = (736, 1324, 20, 20)"
proof -
  have graph: "positionOrDefault position \<noteq> JStr ''bottom full'' \<longrightarrow>
    positionOrDefault position \<noteq> JStr ''top full'' \<longrightarrow>
      extractedCameraGraph r position =
        [\<lparr>chain_inputs = [''0:v''], chain_filters = [CropAspect, Scale 1080 1920],
          chain_output = ''main''\<rparr>,
         \<lparr>chain_inputs = [''0:v''],
          chain_filters = [Crop (cam_width r) (cam_height r) (cam_x r) (cam_y r),
                           ScaleIncrease 324 576, CropSize 324 576],
          chain_output = ''cam''\<rparr>,
         \<lparr>chain_inputs = [''cam''], chain_filters = [DrawBox], chain_output = ''cam_bordered''\<rparr>,
         \<lparr>chain_inputs = [''main'', ''cam_bordered''],
          chain_filters = [Overlay (fst (extractedCameraOffset (positionOrDefault position)))
                                   (snd (extractedCameraOffset (positionOrDefault position)))],
          chain_output = ''final''\<rparr>]"
    by (simp add: extractedCameraGraph_def Let_def camChain_def geometry)
  have sibling: "withCameraGraph position =
        [\<lparr>chain_inputs = [''0:v''],
          chain_filters = [ScaleIncrease 1080 1920, CropSize 1080 1920],
          chain_output = ''gameplay''\<rparr>,
         \<lparr>chain_inputs = [''1:v''], chain_filters = [Scale 324 576],
          chain_output = ''camera_scaled''\<rparr>,
         \<lparr>chain_inputs = [''camera_scaled''], chain_filters = [RoundedMask],
          chain_output = ''camera_rounded''\<rparr>,
         \<lparr>chain_inputs = [''gameplay'', ''camera_rounded''],
          chain_filters = [Overlay (fst (withCameraOffset (positionOrDefault position)))
                                   (snd (withCameraOffset (positionOrDefault position)))],
          chain_output = ''final''\<rparr>]"
    by (simp add: withCameraGraph_def Let_def geometry)
  have flush:
    "edgeGaps (extractedCameraOffset (JStr ''top left'')) = (0, 0, 756, 1344)"
    "edgeGaps (extractedCameraOffset (JStr ''top'')) = (378, 0, 378, 1344)"
    "edgeGaps (extractedCameraOffset (JStr ''top right'')) = (756, 0, 0, 1344)"
    "edgeGaps (extractedCameraOffset (JStr ''left'')) = (0, 672, 756, 672)"
    "edgeGaps (extractedCameraOffset (JStr ''center'')) = (378, 672, 378, 672)"
    "edgeGaps (extractedCameraOffset (JStr ''right'')) = (756, 672, 0, 672)"
    "edgeGaps (extractedCameraOffset (JStr ''bottom left'')) = (0, 1344, 756, 0)"
    "edgeGaps (extractedCameraOffset (JStr ''bottom'')) = (378, 1344, 378, 0)"
    "edgeGaps (extractedCameraOffset (JStr ''bottom right'')) = (756, 1344, 0, 0)"
    by (simp_all add: extractedCameraOffset_def geometry)
  have padded:
    "edgeGaps (withCameraOffset (JStr ''top left'')) = (20, 20, 736, 1324)"
    "edgeGaps (withCameraOffset (JStr ''top'')) = (378, 20, 378, 1324)"
    "edgeGaps (withCameraOffset (JStr ''top right'')) = (736, 20, 20, 1324)"
    "edgeGaps (withCameraOffset (JStr ''left'')) = (20, 672, 736, 672)"
    "edgeGaps (withCameraOffset (JStr ''center'')) = (378, 672, 378, 672)"
    "edgeGaps (withCameraOffset (JStr ''right'')) = (736, 672, 20, 672)"
    "edgeGaps (withCameraOffset (JStr ''bottom left'')) = (20, 1324, 736, 20)"
    "edgeGaps (withCameraOffset (JStr ''bottom'')) = (378, 1324, 378, 20)"
    "edgeGaps (withCameraOffset (JStr ''bottom right'')) = (736, 1324, 20, 20)"
    by (simp_all add: withCameraOffset_def geometry)
  from graph sibling flush padded show ?thesis
    by (intro conjI)
qed

text \<open>The theorem at the example region and the position \<open>top left\<close>.\<close>

theorem C7_overlay_placement_witness:
  "positionOrDefault (JStr ''top left'') \<noteq> JStr ''bottom full''
   \<and> positionOrDefault (JStr ''top left'') \<noteq> JStr ''top full''
   \<and> extractedCameraGraph exRegion (JStr ''top left'') =
        [\<lparr>chain_inputs = [''0:v''], chain_filters = [CropAspect, Scale 1080 1920],
          chain_output = ''main''\<rparr>,
         \<lparr>chain_inputs = [''0:v''],
          chain_filters = [Crop 300 200 10 20, ScaleIncrease 324 576, CropSize 324 576],
          chain_output = ''cam''\<rparr>,
         \<lparr>chain_inputs = [''cam''], chain_filters = [DrawBox], chain_output = ''cam_bordered''\<rparr>,
         \<lparr>chain_inputs = [''main'', ''cam_bordered''], chain_filters = [Overlay 0 0],
          chain_output = ''final''\<rparr>]"
  using C7_overlay_placement [of "JStr ''top left''" exRegion]
  by (simp add: positionOrDefault_def extractedCameraOffset_def exRegion_def)

text \<open>
  Claim C7 as stated fails. At the position \<open>top left\<close> the reframe places the camera at
  offset (0, 0): its distance from the left edge and from the top edge is 0, not a
  padding above 0.
\<close>

theorem C7_padding_counterexample:
  "extractedCameraOffset (JStr ''top left'') = (0, 0)
   \<and> edgeGaps (extractedCameraOffset (JStr ''top left'')) = (0, 0, 756, 1344)"
  by (simp add: extractedCameraOffset_def geometry)

text \<open>
  Claim C8, as amended. On every exit path of \<open>createCompilation\<close> the acquired clip
  files are unlinked and are gone afterwards. Nothing else is unlinked: a file that was
  there before the job is still there, and so is every file an ffmpeg stage wrote, the
  merged and the reframed video included.
\<close>

theorem C8_only_clip_files_deleted:
  "(\<forall>p \<in> set (acquiredPaths e svc cid clips).
       p \<notin> files (snd (createCompilation e svc cid clips opts (start F))))
   \<and> filter isUnlink (calls (snd (createCompilation e svc cid clips opts (start F))))
       = map Unlink (acquiredPaths e svc cid clips)
   \<and> (\<forall>p \<in> F. p \<notin> set (acquiredPaths e svc cid clips) \<longrightarrow>
         p \<in> files (snd (createCompilation e svc cid clips opts (start F))))
   \<and> (\<forall>c \<in> set (calls (snd (createCompilation e svc cid clips opts (start F)))).
        \<forall>out. succeeds e c \<longrightarrow> outputOf c = Some out \<longrightarrow>
          out \<notin> set (acquiredPaths e svc cid clips) \<longrightarrow>
          out \<in> files (snd (createCompilation e svc cid clips opts (start F))))"
proof (cases "ytdlpInstalled e")
  case False
  then show ?thesis
    by (simp add: run_not_installed acquiredPaths_def calls_start files_start)
next
  case inst: True
  show ?thesis
  proof (cases "acquiredPaths e svc cid clips = []")
    case True
    with inst show ?thesis
      using acquired_download [OF inst, of _ clips svc cid]
      by (auto simp: run_nothing_acquired filter_downloads)
  next
    case False
    with inst show ?thesis
      using acquired_download [OF inst, of _ clips svc cid]
        written_member
          [of _ "performed e (plannedCalls svc cid opts (acquiredPaths e svc cid clips))" e]
      by (auto simp: run_closed_form filter_downloads filter_unlinks
            performed_planned_no_unlink)
  qed
qed

text \<open>
  The theorem at the example job with an outro, all stages ending well: the two clip
  files are gone, and the merged video, an intermediate, is still there.
\<close>

theorem C8_only_clip_files_deleted_witness:
  "acquiredPaths allSucceed exService ''j'' exClips
     = [''/srv/temp/j_clip_0.mp4'', ''/srv/temp/j_clip_1.mp4'']
   \<and> ''/srv/temp/j_clip_0.mp4''
       \<notin> files (snd (createCompilation allSucceed exService ''j'' exClips exOptionsOutro
                        (start {})))
   \<and> ''/srv/out/j_merged.mp4''
       \<in> files (snd (createCompilation allSucceed exService ''j'' exClips exOptionsOutro
                        (start {})))"
proof -
  have acq: "acquiredPaths allSucceed exService ''j'' exClips
               = [''/srv/temp/j_clip_0.mp4'', ''/srv/temp/j_clip_1.mp4'']"
    by (simp add: ex_defs eval_simps)
  have m: "FFmpegMerge [''/srv/temp/j_clip_0.mp4'', ''/srv/temp/j_clip_1.mp4'']
             ''[0:v][0:a][1:v][1:a]concat=n=2:v=1:a=1[outv][outa]'' ''/srv/out/j_merged.mp4''
           \<in> set (calls (snd (createCompilation allSucceed exService ''j'' exClips
                                exOptionsOutro (start {}))))"
    using ex_run_all_succeed [of exClips "addOutro_opt exOptionsOutro"]
    by simp
  have s: "succeeds allSucceed c" for c
    by (simp add: allSucceed_def)
  from C8_only_clip_files_deleted [of allSucceed exService "''j''" exClips exOptionsOutro "{}"]
  have gone: "\<forall>p \<in> set (acquiredPaths allSucceed exService ''j'' exClips).
       p \<notin> files (snd (createCompilation allSucceed exService ''j'' exClips exOptionsOutro
                        (start {})))"
    and kept: "\<forall>c \<in> set (calls (snd (createCompilation allSucceed exService ''j'' exClips
                                        exOptionsOutro (start {})))).
        \<forall>out. succeeds allSucceed c \<longrightarrow> outputOf c = Some out \<longrightarrow>
          out \<notin> set (acquiredPaths allSucceed exService ''j'' exClips) \<longrightarrow>
          out \<in> files (snd (createCompilation allSucceed exService ''j'' exClips
                              exOptionsOutro (start {})))"
    by blast+
  from gone have "''/srv/temp/j_clip_0.mp4''
       \<notin> files (snd (createCompilation allSucceed exService ''j'' exClips exOptionsOutro
                        (start {})))"
    by (simp add: acq)
  moreover from kept [rule_format, OF m s, of "''/srv/out/j_merged.mp4''"]
  have "''/srv/out/j_merged.mp4''
       \<in> files (snd (createCompilation allSucceed exService ''j'' exClips exOptionsOutro
                        (start {})))"
    by (simp add: acq)
  ultimately show ?thesis
    using acq by simp
qed

text \<open>
  Claim C8 as stated fails. After the example job with an outro has completed, the
  merged and the reframed video, which only fed later stages, are still on disk beside the
  final video and the thumbnail.
\<close>

theorem C8_intermediates_remain_counterexample:
  "fst (createCompilation allSucceed exService ''j'' exClips exOptionsOutro (start {}))
     = Inr \<lparr>success = True, compilationId = ''j'', videoPath = ''/srv/out/j_final.mp4'',
            thumbnailPath = ''/srv/out/j_thumb.jpg'', filename = ''j_final.mp4''\<rparr>
   \<and> files (snd (createCompilation allSucceed exService ''j'' exClips exOptionsOutro (start {})))
     = {''/srv/out/j_merged.mp4'', ''/srv/out/j_vertical.mp4'',
        ''/srv/out/j_final.mp4'', ''/srv/out/j_thumb.jpg''}"
  using ex_run_all_succeed [of exClips "addOutro_opt exOptionsOutro"]
  by simp

text \<open>
  Claim C9. The values a worker passes to \<open>job.progress\<close> during a job never go down.
  The compilation worker reports 10, then 30, then 100, cut short where the job fails;
  the editor worker reports a rising selection of 10, 30, 50, 70, 90 and 100.
\<close>

theorem C9_progress_non_decreasing:
  "sorted (snd (fst (videoQueue_process e svc cid job st)))
   \<and> (snd (fst (videoQueue_process e svc cid job st)) = [10]
      \<or> snd (fst (videoQueue_process e svc cid job st)) = [10, 30]
      \<or> snd (fst (videoQueue_process e svc cid job st)) = [10, 30, 100])
   \<and> sorted (snd (fst (editorQueue_process e svc outroDir clk editorJob st)))"
proof -
  have compilation:
    "snd (fst (videoQueue_process e svc cid job st)) = [10]
      \<or> snd (fst (videoQueue_process e svc cid job st)) = [10, 30]
      \<or> snd (fst (videoQueue_process e svc cid job st)) = [10, 30, 100]"
    by (simp add: videoQueue_process_def Let_def split: prod.splits sum.splits)
  obtain r p1 st1 where reframe: "editorReframe e svc clk editorJob st = ((r, p1), st1)"
    by (metis surj_pair)
  then have p1: "p1 = [] \<or> p1 = [30]"
    by (auto simp: editorReframe_def Let_def split: if_splits option.splits prod.splits)
  have p3: "snd (fst (editorOutro e svc outroDir clk editorJob path st1)) = []
            \<or> snd (fst (editorOutro e svc outroDir clk editorJob path st1)) = [70]" for path
    by (simp add: editorOutro_def split: option.splits list.splits prod.splits sum.splits)
  have editor: "sorted (snd (fst (editorQueue_process e svc outroDir clk editorJob st)))"
  proof (cases r)
    case (Inl err)
    with reframe p1 show ?thesis
      by (auto simp: editorQueue_process_def)
  next
    case (Inr reframed)
    obtain path p3' st2 where
      outro: "editorOutro e svc outroDir clk editorJob reframed st1 = ((path, p3'), st2)"
      by (metis surj_pair)
    with p3 [of reframed] have "p3' = [] \<or> p3' = [70]"
      by simp
    with Inr reframe outro p1 show ?thesis
      by (auto simp: editorQueue_process_def Let_def split: prod.splits sum.splits)
  qed
  from compilation editor show ?thesis
    by auto
qed

text \<open>
  Claim C10, as amended. \<open>createCompilation\<close> never reads \<open>addOutro\<close>: changing it
  changes nothing. The outro stage is invoked only when \<open>outroPath\<close> is truthy, and in a
  job that completes it is invoked exactly when \<open>outroPath\<close> is truthy. The create
  route passes the request's \<open>outroPath\<close> on unchanged, so a job made through it runs the
  outro stage when, and only when, the request itself names an outro path.
\<close>

theorem C10_outro_stage_iff_outroPath:
  "createCompilation e svc cid clips (opts\<lparr>addOutro_opt := a\<rparr>) st
     = createCompilation e svc cid clips opts st
   \<and> ((\<exists>c \<in> set (calls (snd (createCompilation e svc cid clips opts (start F)))). isOutro c)
        \<longrightarrow> truthy (outroPath_opt opts))
   \<and> (\<forall>r. fst (createCompilation e svc cid clips opts (start F)) = Inr r \<longrightarrow>
          ((\<exists>c \<in> set (calls (snd (createCompilation e svc cid clips opts (start F)))). isOutro c)
            \<longleftrightarrow> truthy (outroPath_opt opts)))
   \<and> (\<forall>job. create_route now body = Inr job \<longrightarrow>
          outroPath_opt (job_options job) = req_outroPath (req_options body))"
proof (intro conjI allI impI)
  show "createCompilation e svc cid clips (opts\<lparr>addOutro_opt := a\<rparr>) st
     = createCompilation e svc cid clips opts st"
    by (simp add: createCompilation_def compilationSteps_def Let_def
          cong: prod.case_cong sum.case_cong if_cong)
next
  assume "\<exists>c \<in> set (calls (snd (createCompilation e svc cid clips opts (start F)))). isOutro c"
  then obtain c where
    c: "c \<in> set (calls (snd (createCompilation e svc cid clips opts (start F))))"
    and o: "isOutro c" by blast
  from stage_call_performed [OF c] o
  have "c \<in> set (performed e (plannedCalls svc cid opts (acquiredPaths e svc cid clips)))"
    by simp
  with performed_subset
  have "c \<in> set (plannedCalls svc cid opts (acquiredPaths e svc cid clips))"
    by blast
  with o show "truthy (outroPath_opt opts)"
    by (auto simp: plannedCalls_def split: if_splits)
next
  fix r
  assume r: "fst (createCompilation e svc cid clips opts (start F)) = Inr r"
  from completed_run [OF r]
  have inst: "ytdlpInstalled e" and ne: "acquiredPaths e svc cid clips \<noteq> []"
    and ok: "list_all (succeeds e) (plannedCalls svc cid opts (acquiredPaths e svc cid clips))"
    by simp_all
  have "(\<exists>c \<in> set (plannedCalls svc cid opts (acquiredPaths e svc cid clips)). isOutro c)
          \<longleftrightarrow> truthy (outroPath_opt opts)"
    by (auto simp: plannedCalls_def)
  with inst ne performed_all [OF ok]
  show "(\<exists>c \<in> set (calls (snd (createCompilation e svc cid clips opts (start F)))). isOutro c)
            \<longleftrightarrow> truthy (outroPath_opt opts)"
    using not_stage_download [of _ svc cid "enumerate 0 clips"]
    by (auto simp: calls_run_cases)
next
  fix job
  assume "create_route now body = Inr job"
  then show "outroPath_opt (job_options job) = req_outroPath (req_options body)"
    by (auto simp: create_route_def Let_def split: option.splits if_splits)
qed

text \<open>
  The theorem at the example request, which switches \<open>addOutro\<close> off and names an outro
  file: the route queues that path, and the job, which completes, invokes the outro
  stage.
\<close>

theorem C10_outro_stage_iff_outroPath_witness:
  "create_route 0 exBody = Inr exJob
   \<and> outroPath_opt (job_options exJob) = JStr ''/srv/outros/outro.mp4''
   \<and> truthy (outroPath_opt (job_options exJob))
   \<and> (\<exists>c \<in> set (calls (snd (createCompilation allSucceed exService ''j'' exClipsWithUrls
                                (job_options exJob) (start {})))). isOutro c)"
proof -
  have route: "create_route 0 exBody = Inr exJob"
    by (simp add: create_route_def exBody_def exJob_def exClips_def js_or_def Let_def)
  have opts: "job_options exJob = exOptionsOutro\<lparr>addOutro_opt := JBool False\<rparr>"
    by (simp add: exJob_def exOptionsOutro_def exOptions_def)
  have completes: "fst (createCompilation allSucceed exService ''j'' exClipsWithUrls
                     (job_options exJob) (start {}))
              = Inr \<lparr>success = True, compilationId = ''j'',
                     videoPath = ''/srv/out/j_final.mp4'',
                     thumbnailPath = ''/srv/out/j_thumb.jpg'', filename = ''j_final.mp4''\<rparr>"
    using ex_run_all_succeed [of exClipsWithUrls "JBool False"]
    by (simp add: opts)
  have t: "truthy (outroPath_opt (job_options exJob))"
    by (simp add: exJob_def)
  have path: "outroPath_opt (job_options exJob) = JStr ''/srv/outros/outro.mp4''"
    by (simp add: exJob_def)
  from C10_outro_stage_iff_outroPath
         [where e = allSucceed and svc = exService and cid = "''j''"
            and clips = exClipsWithUrls and opts = "job_options exJob" and F = "{}"
            and a = "JBool False" and st = "start {}" and now = 0 and body = exBody]
  have "\<forall>r. fst (createCompilation allSucceed exService ''j'' exClipsWithUrls
                     (job_options exJob) (start {})) = Inr r \<longrightarrow>
          ((\<exists>c \<in> set (calls (snd (createCompilation allSucceed exService ''j''
                                       exClipsWithUrls (job_options exJob) (start {})))).
               isOutro c)
            \<longleftrightarrow> truthy (outroPath_opt (job_options exJob)))"
    by blast
  with completes t
  have "\<exists>c \<in> set (calls (snd (createCompilation allSucceed exService ''j'' exClipsWithUrls
                                (job_options exJob) (start {})))). isOutro c"
    by blast
  with route path t show ?thesis
    by blast
qed

text \<open>
  Claim C10 as stated fails. The example request goes through the create route with
  \<open>addOutro\<close> switched off and an outro path: the route queues the path, and the worker,
  which reports progress 10, 30 and 100, invokes the outro stage on the reframed video.
\<close>

theorem C10_route_forwards_outroPath_counterexample:
  "create_route 0 exBody = Inr exJob
   \<and> addOutro_opt (job_options exJob) = JBool False
   \<and> snd (fst (videoQueue_process allSucceed exService ''j'' exJob (start {}))) = [10, 30, 100]
   \<and> filter isOutro (calls (snd (videoQueue_process allSucceed exService ''j'' exJob (start {}))))
     = [FFmpegOutro ''/srv/out/j_vertical.mp4'' (JStr ''/srv/outros/outro.mp4'')
          ''/srv/out/j_final.mp4'']"
proof -
  have route: "create_route 0 exBody = Inr exJob"
    by (simp add: create_route_def exBody_def exJob_def exClips_def js_or_def Let_def)
  have opts: "job_options exJob = exOptionsOutro\<lparr>addOutro_opt := JBool False\<rparr>"
    by (simp add: exJob_def exOptionsOutro_def exOptions_def)
  have loop: "List.map_filter (clipWithUrl allSucceed) (job_clips exJob) = exClipsWithUrls"
    by (simp add: exJob_def exClips_def exClipsWithUrls_def clipWithUrl_def js_or_def
          allSucceed_def List.map_filter_simps Let_def)
  have len: "exClipsWithUrls \<noteq> []"
    by (simp add: exClipsWithUrls_def)
  have off: "addOutro_opt (job_options exJob) = JBool False"
    by (simp add: exJob_def)
  have run: "createCompilation allSucceed exService ''j'' exClipsWithUrls (job_options exJob)
               (start {}) =
     (Inr \<lparr>success = True, compilationId = ''j'', videoPath = ''/srv/out/j_final.mp4'',
           thumbnailPath = ''/srv/out/j_thumb.jpg'', filename = ''j_final.mp4''\<rparr>,
      \<lparr>files = {''/srv/out/j_merged.mp4'', ''/srv/out/j_vertical.mp4'',
                ''/srv/out/j_final.mp4'', ''/srv/out/j_thumb.jpg''},
       calls = [YtdlpDownload ''a'' ''/srv/temp/j_clip_0.mp4'',
                YtdlpDownload ''b'' ''/srv/temp/j_clip_1.mp4'',
                FFmpegMerge [''/srv/temp/j_clip_0.mp4'', ''/srv/temp/j_clip_1.mp4'']
                  ''[0:v][0:a][1:v][1:a]concat=n=2:v=1:a=1[outv][outa]''
                  ''/srv/out/j_merged.mp4'',
                FFmpegVertical ''/srv/out/j_merged.mp4'' (JStr ''bottom'')
                  ''/srv/out/j_vertical.mp4'',
                FFmpegOutro ''/srv/out/j_vertical.mp4'' (JStr ''/srv/outros/outro.mp4'')
                  ''/srv/out/j_final.mp4'',
                FFmpegThumbnail ''/srv/out/j_final.mp4'' ''00:00:01''
                  ''/srv/out/j_thumb.jpg'',
                Unlink ''/srv/temp/j_clip_0.mp4'', Unlink ''/srv/temp/j_clip_1.mp4'']\<rparr>)"
    using ex_run_all_succeed [of exClipsWithUrls "JBool False"]
    by (simp add: opts)
  from route off show ?thesis
    by (simp add: videoQueue_process_def Let_def loop len run)
qed

end
